theory Spec2Isabelle
  imports Complex_Main "HOL-Library.AList"
begin

text \<open>
  The payment code of the repository, in three pieces: the Express route
  \<^verbatim>\<open>POST /payment/webhook\<close> that checks an HMAC signature; the class
  \<^verbatim>\<open>CustomPaymentProviderService\<close>, which caches an access token and talks to its
  processor through axios; and the class \<^verbatim>\<open>FoxPayProviderService\<close>, whose operations
  wrap one \<^verbatim>\<open>fetch\<close> each and turn every failure into an error record. Each function
  is embedded under its own name; where both classes have a method of one name, the custom
  provider's carries the prefix \<open>Custom_\<close>. The network is a parameter: a function from
  the requests sent so far and the request at hand to the answer.
\<close>

section \<open>JavaScript values\<close>

text \<open>
  The adapters handle untyped JSON: the session data the host stores
  (\<^verbatim>\<open>Record<string, unknown>\<close>), the bodies the processor answers with and the
  webhook payloads. A value is one of JavaScript's: \<^verbatim>\<open>undefined\<close>, \<^verbatim>\<open>null\<close>,
  a boolean, a number, a string, an array or an object. Numbers are the integers
  (amounts in the smallest currency unit, counters); an object is the list of its own
  properties in insertion order, each key bound once.
\<close>

datatype js_value =
    JUndefined
  | JNull
  | JBool bool
  | JNum int
  | JStr string
  | JArr "js_value list"
  | JObj "(string \<times> js_value) list"

type_synonym js_obj = "(string \<times> js_value) list"

text \<open>
  A thrown value: the error's \<^verbatim>\<open>name\<close> and its \<^verbatim>\<open>message\<close>. The messages of the
  runtime's own errors are the engine's wording (V8, Node), written without its
  quotation marks; no property below depends on them.
\<close>

datatype js_error = JsError (err_name: string) (err_message: string)

text \<open>
  An asynchronous function either returns a value or rejects with the value thrown:
  \<open>Inl e\<close> is the exception \<open>e\<close> reaching the caller.
\<close>

type_synonym 'a async = "js_error + 'a"

text \<open>\<^verbatim>\<open>obj[key]\<close> on a record: the bound value, or \<^verbatim>\<open>undefined\<close>.\<close>

definition js_field :: "js_obj \<Rightarrow> string \<Rightarrow> js_value" where
  "js_field obj key = (case map_of obj key of None \<Rightarrow> JUndefined | Some v \<Rightarrow> v)"

text \<open>
  \<^verbatim>\<open>v.key\<close> on a value of unknown shape, for the data keys read here (none is a
  prototype property): reading a property of \<^verbatim>\<open>undefined\<close> or \<^verbatim>\<open>null\<close> throws a
  TypeError, an object gives the bound value, every other value gives \<^verbatim>\<open>undefined\<close>.
\<close>

fun js_prop :: "js_value \<Rightarrow> string \<Rightarrow> js_value async" where
  "js_prop JUndefined key =
     Inl (JsError ''TypeError'' (''Cannot read properties of undefined (reading '' @ key @ '')''))"
| "js_prop JNull key =
     Inl (JsError ''TypeError'' (''Cannot read properties of null (reading '' @ key @ '')''))"
| "js_prop (JObj obj) key = Inr (js_field obj key)"
| "js_prop v key = Inr JUndefined"

text \<open>Decimal digits of a natural number, as \<^verbatim>\<open>String(n)\<close> prints them.\<close>

fun show_nat :: "nat \<Rightarrow> string" where
  "show_nat n =
     (if n < 10 then [char_of (48 + n)]
      else show_nat (n div 10) @ [char_of (48 + n mod 10)])"

definition show_int :: "int \<Rightarrow> string" where
  "show_int i = (if i < 0 then CHR ''-'' # show_nat (nat (- i)) else show_nat (nat i))"

fun join_with :: "string \<Rightarrow> string list \<Rightarrow> string" where
  "join_with sep [] = []"
| "join_with sep [x] = x"
| "join_with sep (x # y # ys) = x @ sep @ join_with sep (y # ys)"

text \<open>
  What a template literal \<^verbatim>\<open>`${v}`\<close> interpolates (ToString). Integers print in
  decimal (below \<open>10\<^sup>2\<^sup>1\<close>, where JavaScript switches to exponents), an array joins
  its elements with commas, an object prints as \<^verbatim>\<open>[object Object]\<close>.
\<close>

fun ToString :: "js_value \<Rightarrow> string" where
  "ToString JUndefined = ''undefined''"
| "ToString JNull = ''null''"
| "ToString (JBool b) = (if b then ''true'' else ''false'')"
| "ToString (JNum i) = show_int i"
| "ToString (JStr s) = s"
| "ToString (JArr vs) =
     join_with '','' (map (\<lambda>v. if v = JUndefined \<or> v = JNull then [] else ToString v) vs)"
| "ToString (JObj obj) = ''[object Object]''"

text \<open>
  The own enumerable properties \<^verbatim>\<open>{...v}\<close> copies: an object's own, the indexed
  elements of an array and the indexed characters of a string; nothing for the rest.
\<close>

fun own_props :: "js_value \<Rightarrow> js_obj" where
  "own_props (JObj obj) = obj"
| "own_props (JArr vs) = map (\<lambda>i. (show_nat i, vs ! i)) [0..<length vs]"
| "own_props (JStr s) = map (\<lambda>i. (show_nat i, JStr [s ! i])) [0..<length s]"
| "own_props v = []"

text \<open>
  \<^verbatim>\<open>{...a, ...b}\<close>: the properties of \<open>b\<close> are written over those of \<open>a\<close>, one by
  one; a key already there keeps its place, a new key goes last.
\<close>

definition obj_assign :: "js_obj \<Rightarrow> js_obj \<Rightarrow> js_obj" where
  "obj_assign a b = foldl (\<lambda>acc (k, v). AList.update k v acc) a b"

text \<open>
  \<^verbatim>\<open>toUpperCase\<close> and \<^verbatim>\<open>toLowerCase\<close> on the ASCII letters (currency codes and
  status words); every other byte is kept.
\<close>

definition upper_char :: "char \<Rightarrow> char" where
  "upper_char c =
     (let n = (of_char c :: nat) in if 97 \<le> n \<and> n \<le> 122 then char_of (n - 32) else c)"

definition lower_char :: "char \<Rightarrow> char" where
  "lower_char c =
     (let n = (of_char c :: nat) in if 65 \<le> n \<and> n \<le> 90 then char_of (n + 32) else c)"

definition toUpperCase :: "string \<Rightarrow> string" where
  "toUpperCase s = map upper_char s"

definition toLowerCase :: "string \<Rightarrow> string" where
  "toLowerCase s = map lower_char s"

section \<open>The FoxPay provider: requests and responses\<close>

text \<open>
  A request as \<^verbatim>\<open>fetch(url, init)\<close> receives it. \<open>rq_body\<close> is the value handed to
  \<^verbatim>\<open>JSON.stringify\<close>; a call with no \<^verbatim>\<open>method\<close> is a GET.
\<close>

record fetch_request =
  rq_url :: string
  rq_method :: string
  rq_headers :: "(string \<times> string) list"
  rq_body :: "js_value option"

text \<open>
  A response: \<^verbatim>\<open>res.ok\<close> (the status is 2xx), and what \<^verbatim>\<open>await res.text()\<close> and
  \<^verbatim>\<open>await res.json()\<close> give, each of which may throw (a broken stream, a body that
  is not JSON).
\<close>

record fetch_response =
  rs_ok :: bool
  rs_text :: "string async"
  rs_json :: "js_value async"

text \<open>\<^verbatim>\<open>await fetch(...)\<close> resolves with a response or rejects (transport failure).\<close>

datatype fetch_outcome = Rejects js_error | Resolves fetch_response

text \<open>
  The processor and the network between: what a request is answered with, given the
  requests sent before it. The list of requests sent is the state every operation
  threads; it is all the processor sees of the adapter.
\<close>

type_synonym processor = "fetch_request list \<Rightarrow> fetch_request \<Rightarrow> fetch_outcome"

definition fetch :: "processor \<Rightarrow> fetch_request \<Rightarrow> fetch_request list \<Rightarrow> fetch_outcome \<times> fetch_request list" where
  "fetch net rq sent = (net sent rq, sent @ [rq])"

text \<open>
  \<^verbatim>\<open>PaymentProviderError\<close>: \<^verbatim>\<open>{error, code, detail}\<close>. \<^verbatim>\<open>detail\<close> is the response
  text, a fixed sentence, or (in the \<^verbatim>\<open>catch\<close> branches) the caught error itself.
\<close>

datatype error_detail = DetailText string | DetailError js_error

record provider_error =
  pe_error :: js_error
  pe_code :: string
  pe_detail :: error_detail

record options =
  apiKey :: string
  foxpayBaseUrl :: "string option"

record foxpay =
  fp_options :: options
  baseUrl :: string

text \<open>The constructor: \<^verbatim>\<open>options.foxpayBaseUrl || "https://api.foxpay.com"\<close>.\<close>

definition FoxPayProviderService :: "options \<Rightarrow> foxpay" where
  "FoxPayProviderService opts =
     \<lparr>fp_options = opts,
      baseUrl = (case foxpayBaseUrl opts of
                   None \<Rightarrow> ''https://api.foxpay.com''
                 | Some u \<Rightarrow> if u = [] then ''https://api.foxpay.com'' else u)\<rparr>"

definition bearer :: "foxpay \<Rightarrow> string \<times> string" where
  "bearer this = (''Authorization'', ''Bearer '' @ apiKey (fp_options this))"

definition post_json :: "foxpay \<Rightarrow> string \<Rightarrow> js_value \<Rightarrow> fetch_request" where
  "post_json this path payload =
     \<lparr>rq_url = baseUrl this @ path,
      rq_method = ''POST'',
      rq_headers = [(''Content-Type'', ''application/json''), bearer this],
      rq_body = Some payload\<rparr>"

definition get_with_id :: "foxpay \<Rightarrow> string \<Rightarrow> js_value \<Rightarrow> fetch_request" where
  "get_with_id this path externalId =
     \<lparr>rq_url = baseUrl this @ path @ ToString externalId,
      rq_method = ''GET'',
      rq_headers = [bearer this],
      rq_body = None\<rparr>"

text \<open>\<^verbatim>\<open>try { ... } catch (e) { ... }\<close> around a body that returns or throws.\<close>

definition try_catch :: "'a async \<Rightarrow> (js_error \<Rightarrow> 'a) \<Rightarrow> 'a" where
  "try_catch body handler = (case body of Inl e \<Rightarrow> handler e | Inr v \<Rightarrow> v)"

text \<open>
  The body every gateway operation of the class repeats:
  \<^verbatim>\<open>
  try {
    const res = await fetch(url, init)
    if (!res.ok) {
      const detail = await res.text()
      return { error: new Error(`<label>${detail}`), code: "<code>", detail }
    }
    const data = await res.json()
    <rest, from data>
  } catch (e) {
    return { error: e, code: "unknown", detail: e }
  }\<close>
  Nothing of an operation stands after the \<^verbatim>\<open>try\<close>, so its result is what the
  \<^verbatim>\<open>try\<close> or the \<^verbatim>\<open>catch\<close> returns.
\<close>

definition gateway_call ::
  "processor \<Rightarrow> fetch_request \<Rightarrow> string \<Rightarrow> string \<Rightarrow>
   (js_value \<Rightarrow> (provider_error + 'a) async) \<Rightarrow>
   fetch_request list \<Rightarrow> (provider_error + 'a) async \<times> fetch_request list" where
  "gateway_call net rq label code rest sent =
     (let (outcome, sent') = fetch net rq sent in
      (Inr (try_catch
         (case outcome of
            Rejects e \<Rightarrow> Inl e
          | Resolves res \<Rightarrow>
              if \<not> rs_ok res then
                (case rs_text res of
                   Inl e \<Rightarrow> Inl e
                 | Inr detail \<Rightarrow>
                     Inr (Inl \<lparr>pe_error = JsError ''Error'' (label @ detail),
                               pe_code = code,
                               pe_detail = DetailText detail\<rparr>))
              else
                (case rs_json res of
                   Inl e \<Rightarrow> Inl e
                 | Inr data \<Rightarrow> rest data))
         (\<lambda>e. Inl \<lparr>pe_error = e, pe_code = ''unknown'', pe_detail = DetailError e\<rparr>)),
       sent'))"

text \<open>\<^verbatim>\<open>v?.key\<close> and \<^verbatim>\<open>a ?? b\<close>.\<close>

definition js_opt_prop :: "js_value \<Rightarrow> string \<Rightarrow> js_value" where
  "js_opt_prop v key = (case js_prop v key of Inl e \<Rightarrow> JUndefined | Inr w \<Rightarrow> w)"

definition nullish_or :: "js_value \<Rightarrow> js_value \<Rightarrow> js_value" where
  "nullish_or v d = (if v = JUndefined \<or> v = JNull then d else v)"

text \<open>
  \<^verbatim>\<open>CreatePaymentProviderSession\<close> and \<^verbatim>\<open>UpdatePaymentProviderSession\<close>: the amount
  (passed on as it is), the currency code (a string) and the host's context, of unknown
  shape and possibly absent; an update also carries the session data.
\<close>

record create_session =
  cs_amount :: js_value
  cs_currency_code :: string
  cs_context :: js_value

record update_session = create_session +
  us_data :: js_obj

subsection \<open>initiatePayment\<close>

definition initiate_memo :: "create_session \<Rightarrow> string" where
  "initiate_memo context =
     ''Order #'' @ ToString (nullish_or (js_opt_prop (cs_context context) ''cart_id'') (JStr ''unknown''))"

definition initiate_request :: "foxpay \<Rightarrow> create_session \<Rightarrow> fetch_request" where
  "initiate_request this context =
     post_json this ''/initiate''
       (JObj [(''amount'', cs_amount context),
              (''currency'', JStr (toUpperCase (cs_currency_code context))),
              (''verwendungszweck'', JStr (initiate_memo context))])"

definition initiatePayment ::
  "foxpay \<Rightarrow> processor \<Rightarrow> create_session \<Rightarrow> fetch_request list \<Rightarrow>
   (provider_error + js_obj) async \<times> fetch_request list" where
  "initiatePayment this net context =
     gateway_call net (initiate_request this context) ''FoxPay initiation failed: '' ''init_failed''
       (\<lambda>data.
          case js_prop data ''id'' of
            Inl e \<Rightarrow> Inl e
          | Inr ident \<Rightarrow>
              (case js_prop data ''qr_code_url'' of
                 Inl e \<Rightarrow> Inl e
               | Inr qr \<Rightarrow>
                   Inr (Inr (AList.update ''data''
                     (JObj [(''id'', ident),
                            (''qr_code_url'', qr),
                            (''verwendungszweck'', JStr (initiate_memo context))])
                     (obj_assign [] (own_props data))))))"

subsection \<open>authorizePayment\<close>

record authorize_result =
  ar_status :: string
  ar_data :: js_obj

definition status_request :: "foxpay \<Rightarrow> js_obj \<Rightarrow> fetch_request" where
  "status_request this paymentSessionData =
     get_with_id this ''/status/'' (js_field paymentSessionData ''id'')"

definition authorizePayment ::
  "foxpay \<Rightarrow> processor \<Rightarrow> js_obj \<Rightarrow> fetch_request list \<Rightarrow>
   (provider_error + authorize_result) async \<times> fetch_request list" where
  "authorizePayment this net paymentSessionData =
     gateway_call net (status_request this paymentSessionData)
       ''FoxPay status check failed: '' ''status_failed''
       (\<lambda>statusData.
          case js_prop statusData ''status'' of
            Inl e \<Rightarrow> Inl e
          | Inr st \<Rightarrow>
              if st = JStr ''authorized'' then
                Inr (Inr \<lparr>ar_status = ''authorized'',
                          ar_data = obj_assign [] paymentSessionData\<rparr>)
              else
                Inr (Inl \<lparr>pe_error = JsError ''Error'' ''Payment not yet authorized'',
                          pe_code = ''not_authorized'',
                          pe_detail = DetailText ''Still pending user action''\<rparr>))"

subsection \<open>capturePayment, cancelPayment, deletePayment, refundPayment\<close>

definition id_payload :: "js_obj \<Rightarrow> js_value" where
  "id_payload paymentData = JObj [(''id'', js_field paymentData ''id'')]"

definition merged :: "js_obj \<Rightarrow> js_value \<Rightarrow> (provider_error + js_obj) async" where
  "merged paymentData newData =
     Inr (Inr (obj_assign (obj_assign [] paymentData) (own_props newData)))"

definition capture_request :: "foxpay \<Rightarrow> js_obj \<Rightarrow> fetch_request" where
  "capture_request this paymentData = post_json this ''/capture'' (id_payload paymentData)"

definition capturePayment ::
  "foxpay \<Rightarrow> processor \<Rightarrow> js_obj \<Rightarrow> fetch_request list \<Rightarrow>
   (provider_error + js_obj) async \<times> fetch_request list" where
  "capturePayment this net paymentData =
     gateway_call net (capture_request this paymentData)
       ''FoxPay capture failed: '' ''capture_failed'' (merged paymentData)"

definition cancel_request :: "foxpay \<Rightarrow> js_obj \<Rightarrow> fetch_request" where
  "cancel_request this paymentData = post_json this ''/cancel'' (id_payload paymentData)"

definition cancelPayment ::
  "foxpay \<Rightarrow> processor \<Rightarrow> js_obj \<Rightarrow> fetch_request list \<Rightarrow>
   (provider_error + js_obj) async \<times> fetch_request list" where
  "cancelPayment this net paymentData =
     gateway_call net (cancel_request this paymentData)
       ''FoxPay cancel failed: '' ''cancel_failed'' (merged paymentData)"

definition deletePayment ::
  "foxpay \<Rightarrow> processor \<Rightarrow> js_obj \<Rightarrow> fetch_request list \<Rightarrow>
   (provider_error + js_obj) async \<times> fetch_request list" where
  "deletePayment this net paymentSessionData =
     cancelPayment this net [(''id'', js_field paymentSessionData ''id'')]"

definition refund_request :: "foxpay \<Rightarrow> js_obj \<Rightarrow> js_value \<Rightarrow> fetch_request" where
  "refund_request this paymentData refundAmount =
     post_json this ''/refund''
       (JObj [(''id'', js_field paymentData ''id''), (''amount'', refundAmount)])"

definition refundPayment ::
  "foxpay \<Rightarrow> processor \<Rightarrow> js_obj \<Rightarrow> js_value \<Rightarrow> fetch_request list \<Rightarrow>
   (provider_error + js_obj) async \<times> fetch_request list" where
  "refundPayment this net paymentData refundAmount =
     gateway_call net (refund_request this paymentData refundAmount)
       ''FoxPay refund failed: '' ''refund_failed'' (merged paymentData)"

subsection \<open>retrievePayment, updatePayment\<close>

definition retrieve_request :: "foxpay \<Rightarrow> js_obj \<Rightarrow> fetch_request" where
  "retrieve_request this paymentSessionData =
     get_with_id this ''/retrieve/'' (js_field paymentSessionData ''id'')"

definition retrievePayment ::
  "foxpay \<Rightarrow> processor \<Rightarrow> js_obj \<Rightarrow> fetch_request list \<Rightarrow>
   (provider_error + js_value) async \<times> fetch_request list" where
  "retrievePayment this net paymentSessionData =
     gateway_call net (retrieve_request this paymentSessionData)
       ''FoxPay retrieve failed: '' ''retrieve_failed'' (\<lambda>data. Inr (Inr data))"

definition update_memo :: "update_session \<Rightarrow> string" where
  "update_memo context =
     ''Order Update #'' @ ToString (nullish_or (js_opt_prop (cs_context context) ''cart_id'') (JStr ''unknown''))"

definition update_request :: "foxpay \<Rightarrow> update_session \<Rightarrow> fetch_request" where
  "update_request this context =
     post_json this ''/update''
       (JObj [(''id'', js_field (us_data context) ''id''),
              (''amount'', cs_amount context),
              (''currency'', JStr (toUpperCase (cs_currency_code context))),
              (''verwendungszweck'', JStr (update_memo context))])"

definition updatePayment ::
  "foxpay \<Rightarrow> processor \<Rightarrow> update_session \<Rightarrow> fetch_request list \<Rightarrow>
   (provider_error + js_obj) async \<times> fetch_request list" where
  "updatePayment this net context =
     gateway_call net (update_request this context) ''FoxPay update failed: '' ''update_failed''
       (\<lambda>response.
          case js_prop response ''id'' of
            Inl e \<Rightarrow> Inl e
          | Inr ident \<Rightarrow>
              Inr (Inr (AList.update ''data''
                (JObj [(''id'', ident), (''verwendungszweck'', JStr (update_memo context))])
                (obj_assign [] (own_props response)))))"

subsection \<open>getPaymentStatus\<close>

text \<open>
  The \<^verbatim>\<open>switch\<close> on \<^verbatim>\<open>data.status\<close> compares with \<^verbatim>\<open>===\<close>, so only the three
  strings match; the function returns a status word, never an error record.
\<close>

definition map_status :: "js_value \<Rightarrow> string" where
  "map_status st =
     (if st = JStr ''authorized'' then ''authorized''
      else if st = JStr ''captured'' then ''captured''
      else if st = JStr ''canceled'' then ''canceled''
      else ''pending'')"

definition getPaymentStatus ::
  "foxpay \<Rightarrow> processor \<Rightarrow> js_obj \<Rightarrow> fetch_request list \<Rightarrow> string async \<times> fetch_request list" where
  "getPaymentStatus this net paymentSessionData sent =
     (let (outcome, sent') = fetch net (status_request this paymentSessionData) sent in
      (Inr (try_catch
         (case outcome of
            Rejects e \<Rightarrow> Inl e
          | Resolves res \<Rightarrow>
              if \<not> rs_ok res then Inr ''error''
              else
                (case rs_json res of
                   Inl e \<Rightarrow> Inl e
                 | Inr data \<Rightarrow>
                     (case js_prop data ''status'' of
                        Inl e \<Rightarrow> Inl e
                      | Inr st \<Rightarrow> Inr (map_status st))))
         (\<lambda>e. ''error'')),
       sent'))"

subsection \<open>getWebhookActionAndData\<close>

record webhook_payload =
  wp_data :: js_obj
  wp_rawData :: string
  wp_headers :: js_obj

record webhook_fields =
  wf_session_id :: js_value
  wf_amount :: js_value

record webhook_action =
  wa_action :: string
  wa_data :: "webhook_fields option"

text \<open>
  The \<^verbatim>\<open>switch\<close> on \<^verbatim>\<open>data.event_type\<close>. Reading a key of a record cannot throw,
  so the \<^verbatim>\<open>catch\<close> branch (action \<^verbatim>\<open>failed\<close>) is never taken for a payload of the
  declared type; the function reads neither \<^verbatim>\<open>rawData\<close> nor \<^verbatim>\<open>headers\<close>.
\<close>

definition getWebhookActionAndData :: "webhook_payload \<Rightarrow> webhook_action async" where
  "getWebhookActionAndData payload =
     (let data = wp_data payload;
          fields = \<lparr>wf_session_id = js_field data ''session_id'',
                    wf_amount = js_field data ''amount''\<rparr>
      in Inr (try_catch
           (if js_field data ''event_type'' = JStr ''payment_authorized'' then
              Inr \<lparr>wa_action = ''authorized'', wa_data = Some fields\<rparr>
            else if js_field data ''event_type'' = JStr ''payment_captured'' then
              Inr \<lparr>wa_action = ''captured'', wa_data = Some fields\<rparr>
            else
              Inr \<lparr>wa_action = ''not_supported'', wa_data = None\<rparr>)
           (\<lambda>e. \<lparr>wa_action = ''failed'', wa_data = Some fields\<rparr>)))"

section \<open>The webhook route\<close>

text \<open>
  \<^verbatim>\<open>router.post('/payment/webhook', ...)\<close>. Two functions of the runtime are taken as
  they are: \<^verbatim>\<open>JSON.stringify\<close>, and the keyed digest
  \<^verbatim>\<open>crypto.createHmac('sha384', key).update(payload).digest('hex')\<close>.
\<close>

record js_runtime =
  JSON_stringify :: "js_value \<Rightarrow> string"
  hmac_sha384_hex :: "string \<Rightarrow> string \<Rightarrow> string"

text \<open>
  \<^verbatim>\<open>req.body\<close> is what the JSON body parser left (\<^verbatim>\<open>undefined\<close> when none has run),
  \<^verbatim>\<open>req.headers[name]\<close> is the header's value or \<^verbatim>\<open>undefined\<close>.
\<close>

record webhook_request =
  req_body :: js_value
  req_headers :: "(string \<times> string) list"

record http_reply =
  reply_status :: nat
  reply_text :: string

text \<open>
  What a run of the handler does: the reply it sends, and the payment-session updates
  it applies, each a pair \<^verbatim>\<open>(paymentTransactionId, updatedStatus)\<close>. The source
  leaves the update as a comment, so no path applies one.
\<close>

record route_effects =
  re_reply :: http_reply
  re_updates :: "(js_value \<times> js_value) list"

text \<open>
  \<^verbatim>\<open>JSON.stringify(v)\<close> is a string, except that for \<^verbatim>\<open>undefined\<close> (no body parser
  has run) it is \<^verbatim>\<open>undefined\<close>.
\<close>

definition stringify :: "js_runtime \<Rightarrow> js_value \<Rightarrow> string option" where
  "stringify rt v = (if v = JUndefined then None else Some (JSON_stringify rt v))"

text \<open>
  \<^verbatim>\<open>crypto.createHmac('sha384', key).update(payload).digest('hex')\<close>. Both calls check
  their argument: a key that is \<^verbatim>\<open>undefined\<close> (the environment variable is not set)
  makes \<^verbatim>\<open>createHmac\<close> throw a TypeError (ERR_INVALID_ARG_TYPE), and so does a payload
  that is \<^verbatim>\<open>undefined\<close> in \<^verbatim>\<open>update\<close>.
\<close>

definition createHmac_digest ::
  "js_runtime \<Rightarrow> string option \<Rightarrow> string option \<Rightarrow> string async" where
  "createHmac_digest rt key payload =
     (case key of
        None \<Rightarrow> Inl (JsError ''TypeError''
                  ''The key argument must be of type string or an instance of ArrayBuffer, Buffer, TypedArray, DataView, KeyObject, or CryptoKey. Received undefined'')
      | Some k \<Rightarrow>
          (case payload of
             None \<Rightarrow> Inl (JsError ''TypeError''
                       ''The data argument must be of type string or an instance of Buffer, TypedArray, or DataView. Received undefined'')
           | Some p \<Rightarrow> Inr (hmac_sha384_hex rt k p)))"

text \<open>
  Lines 43 to 50 of the handler: the digest of the re-serialised body under the secret
  of the environment, compared with the header by \<^verbatim>\<open>!==\<close>. The result is whether the
  two are the same string.
\<close>

definition signature_matches :: "js_runtime \<Rightarrow> string option \<Rightarrow> webhook_request \<Rightarrow> bool async" where
  "signature_matches rt webhookSecret req =
     (let payload = stringify rt (req_body req);
          signature = map_of (req_headers req) ''x-hmac-sha384''
      in case createHmac_digest rt webhookSecret payload of
           Inl e \<Rightarrow> Inl e
         | Inr hmac \<Rightarrow> Inr (signature = Some hmac))"

text \<open>
  \<^verbatim>\<open>const { a, b } = v\<close> throws when \<open>v\<close> is \<^verbatim>\<open>undefined\<close> or \<^verbatim>\<open>null\<close>; \<open>what\<close>
  names the first property and the source, as the message does.
\<close>

definition destructurable :: "js_value \<Rightarrow> string \<Rightarrow> unit async" where
  "destructurable v what =
     (if v = JUndefined then
        Inl (JsError ''TypeError'' (''Cannot destructure property '' @ what @ '' as it is undefined.''))
      else if v = JNull then
        Inl (JsError ''TypeError'' (''Cannot destructure property '' @ what @ '' as it is null.''))
      else Inr ())"

text \<open>
  The handler. Nothing stands between the signature check and the reply but the
  destructuring of the body; the \<^verbatim>\<open>try\<close> holds the reply alone.
\<close>

definition payment_webhook :: "js_runtime \<Rightarrow> string option \<Rightarrow> webhook_request \<Rightarrow> route_effects async" where
  "payment_webhook rt webhookSecret req =
     (case signature_matches rt webhookSecret req of
        Inl e \<Rightarrow> Inl e
      | Inr same \<Rightarrow>
          if \<not> same then
            Inr \<lparr>re_reply = \<lparr>reply_status = 401, reply_text = ''Invalid signature''\<rparr>,
                 re_updates = []\<rparr>
          else
            (case destructurable (req_body req) ''paymentTransactionId of req.body'' of
               Inl e \<Rightarrow> Inl e
             | Inr u \<Rightarrow>
                 Inr (try_catch
                   (Inr \<lparr>re_reply = \<lparr>reply_status = 200, reply_text = ''Webhook received''\<rparr>,
                         re_updates = []\<rparr>)
                   (\<lambda>error. \<lparr>re_reply = \<lparr>reply_status = 500, reply_text = ''Internal server error''\<rparr>,
                              re_updates = []\<rparr>))))"

section \<open>The custom payment provider\<close>

text \<open>
  \<^verbatim>\<open>CustomPaymentProviderService\<close> talks to its processor through axios. A request
  (each one below is a POST) is the URL, the body and the headers; the bodies are the
  three object literals of the class. An amount on the wire is \<^verbatim>\<open>total / 100\<close>, a
  fraction.
\<close>

datatype axios_body =
    TokenBody (projectAccessKey: "string option") (projectSecretKey: "string option")
  | TransferBody (tb_amount: rat) (tb_currency: string) (tb_paymentUsage: string)
      (tb_notificationUrl: string) (tb_requireInstantPayment: bool)
  | RefundBody (rb_paymentTransactionId: js_value) (rb_amount: rat)

record axios_request =
  ax_url :: string
  ax_data :: axios_body
  ax_headers :: "(string \<times> string) list"

text \<open>
  \<^verbatim>\<open>await axios.post(...)\<close> resolves with a response, of which the class reads
  \<^verbatim>\<open>response.data\<close>, or rejects with an error, of which it reads \<^verbatim>\<open>error.message\<close>
  (a status outside 2xx, a transport failure).
\<close>

datatype 'd axios_outcome = AxiosError string | AxiosResponse 'd

text \<open>
  The token endpoint's body, as its contract gives it: \<^verbatim>\<open>{accessToken, expiresIn}\<close>, a
  string and a lifetime in seconds. A body of another shape is outside the model.
\<close>

record token_reply =
  tr_accessToken :: string
  tr_expiresIn :: int

text \<open>
  The processor behind axios: what the token endpoint and the payment endpoints answer,
  given the requests sent before, and how many milliseconds pass until the answer.
\<close>

record gateway =
  gw_token :: "axios_request list \<Rightarrow> axios_request \<Rightarrow> token_reply axios_outcome"
  gw_api :: "axios_request list \<Rightarrow> axios_request \<Rightarrow> js_value axios_outcome"
  gw_latency :: "axios_request list \<Rightarrow> axios_request \<Rightarrow> nat"

text \<open>The world outside the class: the requests sent so far and \<^verbatim>\<open>Date.now()\<close>.\<close>

record world =
  w_sent :: "axios_request list"
  w_now :: int

definition axios_post ::
  "(axios_request list \<Rightarrow> axios_request \<Rightarrow> 'd axios_outcome) \<Rightarrow> gateway \<Rightarrow> axios_request \<Rightarrow>
   world \<Rightarrow> 'd axios_outcome \<times> world" where
  "axios_post endpoint gw rq w =
     (endpoint (w_sent w) rq,
      \<lparr>w_sent = w_sent w @ [rq], w_now = w_now w + int (gw_latency gw (w_sent w) rq)\<rparr>)"

record environment =
  PAYMENT_PROVIDER_API_URL :: "string option"
  PAYMENT_PROVIDER_AUTH_URL :: "string option"
  PAYMENT_PROVIDER_ACCESS_KEY :: "string option"
  PAYMENT_PROVIDER_SECRET_KEY :: "string option"
  BACKEND_URL :: "string option"

record custom_service =
  apiUrl :: string
  authUrl :: string
  accessKey :: "string option"
  secretKey :: "string option"
  accessToken :: "string option"
  tokenExpiry :: "int option"

text \<open>\<^verbatim>\<open>process.env.X || fallback\<close>: unset and empty both give the fallback.\<close>

definition env_or :: "string option \<Rightarrow> string \<Rightarrow> string" where
  "env_or v fallback = (case v of None \<Rightarrow> fallback | Some s \<Rightarrow> if s = [] then fallback else s)"

definition CustomPaymentProviderService :: "environment \<Rightarrow> custom_service" where
  "CustomPaymentProviderService env =
     \<lparr>apiUrl = env_or (PAYMENT_PROVIDER_API_URL env) ''https://api.wlpis.io'',
      authUrl = env_or (PAYMENT_PROVIDER_AUTH_URL env) ''https://auth.wlpis.io'',
      accessKey = PAYMENT_PROVIDER_ACCESS_KEY env,
      secretKey = PAYMENT_PROVIDER_SECRET_KEY env,
      accessToken = None,
      tokenExpiry = None\<rparr>"

subsection \<open>authenticate, ensureAuthenticated\<close>

definition token_request :: "custom_service \<Rightarrow> axios_request" where
  "token_request this =
     \<lparr>ax_url = authUrl this @ ''/api/token/project'',
      ax_data = TokenBody (accessKey this) (secretKey this),
      ax_headers = [(''Content-Type'', ''application/json'')]\<rparr>"

text \<open>
  \<^verbatim>\<open>Date.now()\<close> is read after the answer has come: the expiry counts from then, in
  milliseconds. A failed call throws and leaves both fields as they were.
\<close>

definition authenticate ::
  "gateway \<Rightarrow> custom_service \<Rightarrow> world \<Rightarrow> unit async \<times> custom_service \<times> world" where
  "authenticate gw this w =
     (let (outcome, w') = axios_post (gw_token gw) gw (token_request this) w in
      case outcome of
        AxiosError message \<Rightarrow>
          (Inl (JsError ''Error'' (''Authentication failed: '' @ message)), this, w')
      | AxiosResponse reply \<Rightarrow>
          (Inr (),
           this\<lparr>accessToken := Some (tr_accessToken reply),
                tokenExpiry := Some (w_now w' + tr_expiresIn reply * 1000)\<rparr>,
           w'))"

text \<open>
  \<^verbatim>\<open>!this.accessToken\<close> holds for \<^verbatim>\<open>null\<close> and for the empty string;
  \<^verbatim>\<open>Date.now() >= null\<close> compares with 0.
\<close>

definition token_missing :: "custom_service \<Rightarrow> bool" where
  "token_missing this = (accessToken this = None \<or> accessToken this = Some [])"

definition token_expired :: "custom_service \<Rightarrow> int \<Rightarrow> bool" where
  "token_expired this now = (now \<ge> (case tokenExpiry this of None \<Rightarrow> 0 | Some expiry \<Rightarrow> expiry))"

definition ensureAuthenticated ::
  "gateway \<Rightarrow> custom_service \<Rightarrow> world \<Rightarrow> unit async \<times> custom_service \<times> world" where
  "ensureAuthenticated gw this w =
     (if token_missing this \<or> token_expired this (w_now w) then authenticate gw this w
      else (Inr (), this, w))"

subsection \<open>createPayment\<close>

record cart =
  cart_id :: string
  cart_total :: int
  cart_region_currency_code :: string

record payment_session =
  ps_provider_id :: string
  ps_data :: js_obj
  ps_amount :: int
  ps_currency_code :: string

definition bearer_token :: "custom_service \<Rightarrow> string \<times> string" where
  "bearer_token this =
     (''Authorization'', ''Bearer '' @ (case accessToken this of None \<Rightarrow> ''null'' | Some t \<Rightarrow> t))"

definition transfer_request :: "environment \<Rightarrow> custom_service \<Rightarrow> cart \<Rightarrow> axios_request" where
  "transfer_request env this c =
     \<lparr>ax_url = apiUrl this @ ''/api/payment/onlineBankTransfer'',
      ax_data = TransferBody (of_int (cart_total c) / 100)
                  (toUpperCase (cart_region_currency_code c))
                  (''Order '' @ cart_id c)
                  ((case BACKEND_URL env of None \<Rightarrow> ''undefined'' | Some u \<Rightarrow> u) @ ''/payment/webhook'')
                  True,
      ax_headers = [bearer_token this, (''Content-Type'', ''application/json'')]\<rparr>"

definition createPayment ::
  "environment \<Rightarrow> gateway \<Rightarrow> custom_service \<Rightarrow> cart \<Rightarrow> world \<Rightarrow>
   payment_session async \<times> custom_service \<times> world" where
  "createPayment env gw this0 c w0 =
     (case ensureAuthenticated gw this0 w0 of
        (Inl e, this, w) \<Rightarrow> (Inl e, this, w)
      | (Inr u, this, w) \<Rightarrow>
          (let (outcome, w') = axios_post (gw_api gw) gw (transfer_request env this c) w in
           (case (case outcome of
                    AxiosError message \<Rightarrow> Inl (JsError ''AxiosError'' message)
                  | AxiosResponse data \<Rightarrow>
                      (case destructurable data ''transactionId of response.data'' of
                         Inl e \<Rightarrow> Inl e
                       | Inr u \<Rightarrow>
                           Inr \<lparr>ps_provider_id = ''custom-payment-provider'',
                                ps_data = [(''transactionId'', js_opt_prop data ''transactionId''),
                                           (''status'', js_opt_prop data ''status'')],
                                ps_amount = cart_total c,
                                ps_currency_code = cart_region_currency_code c\<rparr>)) of
              Inl error \<Rightarrow>
                Inl (JsError ''Error'' (''Payment creation failed: '' @ err_message error))
            | Inr session \<Rightarrow> Inr session,
            this, w')))"

subsection \<open>authorizePayment, refundPayment, cancelPayment\<close>

record custom_result =
  cr_status :: string
  cr_data :: js_value

text \<open>No request: \<^verbatim>\<open>return { status: 'authorized', data: paymentSession.data }\<close>.\<close>

definition Custom_authorizePayment :: "js_obj \<Rightarrow> js_value \<Rightarrow> custom_result async" where
  "Custom_authorizePayment paymentSession context =
     Inr \<lparr>cr_status = ''authorized'', cr_data = js_field paymentSession ''data''\<rparr>"

text \<open>\<^verbatim>\<open>v.toLowerCase()\<close> on a value of unknown shape.\<close>

definition js_toLowerCase :: "js_value \<Rightarrow> string async" where
  "js_toLowerCase v =
     (case v of
        JStr s \<Rightarrow> Inr (toLowerCase s)
      | JUndefined \<Rightarrow>
          Inl (JsError ''TypeError'' ''Cannot read properties of undefined (reading toLowerCase)'')
      | JNull \<Rightarrow>
          Inl (JsError ''TypeError'' ''Cannot read properties of null (reading toLowerCase)'')
      | _ \<Rightarrow> Inl (JsError ''TypeError'' ''status.toLowerCase is not a function''))"

definition refund_body :: "js_obj \<Rightarrow> int \<Rightarrow> axios_body async" where
  "refund_body payment amount =
     (case js_prop (js_field payment ''data'') ''transactionId'' of
        Inl e \<Rightarrow> Inl e
      | Inr transactionId \<Rightarrow> Inr (RefundBody transactionId (of_int amount / 100)))"

definition Custom_refund_request :: "custom_service \<Rightarrow> axios_body \<Rightarrow> axios_request" where
  "Custom_refund_request this body =
     \<lparr>ax_url = apiUrl this @ ''/api/payment/refund'',
      ax_data = body,
      ax_headers = [bearer_token this, (''Content-Type'', ''application/json'')]\<rparr>"

definition Custom_refundPayment ::
  "gateway \<Rightarrow> custom_service \<Rightarrow> js_obj \<Rightarrow> int \<Rightarrow> world \<Rightarrow>
   custom_result async \<times> custom_service \<times> world" where
  "Custom_refundPayment gw this0 payment amount w0 =
     (case ensureAuthenticated gw this0 w0 of
        (Inl e, this, w) \<Rightarrow> (Inl e, this, w)
      | (Inr u, this, w) \<Rightarrow>
          (case refund_body payment amount of
             Inl error \<Rightarrow>
               (Inl (JsError ''Error'' (''Refund failed: '' @ err_message error)), this, w)
           | Inr body \<Rightarrow>
               (let (outcome, w') =
                      axios_post (gw_api gw) gw (Custom_refund_request this body) w
                in (case (case outcome of
                            AxiosError message \<Rightarrow> Inl (JsError ''AxiosError'' message)
                          | AxiosResponse data \<Rightarrow>
                              (case destructurable data ''status of response.data'' of
                                 Inl e \<Rightarrow> Inl e
                               | Inr u \<Rightarrow>
                                   (case js_toLowerCase (js_opt_prop data ''status'') of
                                      Inl e \<Rightarrow> Inl e
                                    | Inr status \<Rightarrow>
                                        Inr \<lparr>cr_status = status,
                                             cr_data = js_field payment ''data''\<rparr>))) of
                      Inl error \<Rightarrow>
                        Inl (JsError ''Error'' (''Refund failed: '' @ err_message error))
                    | Inr result \<Rightarrow> Inr result,
                    this, w'))))"

text \<open>No request: \<^verbatim>\<open>return { ...paymentData, status: 'cancelled' }\<close>.\<close>

definition Custom_cancelPayment :: "js_obj \<Rightarrow> js_obj async" where
  "Custom_cancelPayment paymentData =
     Inr (AList.update ''status'' (JStr ''cancelled'') (obj_assign [] paymentData))"

section \<open>Properties of the contract\<close>

text \<open>
  What one gateway operation owes its caller, said of its result and of the answer
  \<open>net sent rq\<close> its request got: a response outside 2xx whose text can be read gives
  the operation's own code and that text as detail; a rejected \<^verbatim>\<open>fetch\<close> and a body
  that does not decode give the code \<^verbatim>\<open>unknown\<close> with the error caught as \<^verbatim>\<open>error\<close>
  and \<^verbatim>\<open>detail\<close>; and in every case the operation returns (\<open>Inr\<close>), it does not throw.
\<close>

definition tagged_outcome ::
  "processor \<Rightarrow> fetch_request list \<Rightarrow> fetch_request \<Rightarrow> string \<Rightarrow> string \<Rightarrow>
   (provider_error + 'a) async \<Rightarrow> bool" where
  "tagged_outcome net sent rq label code outcome \<longleftrightarrow>
     (\<exists>tagged. outcome = Inr tagged)
   \<and> (\<forall>res detail.
         net sent rq = Resolves res \<and> \<not> rs_ok res \<and> rs_text res = Inr detail \<longrightarrow>
         outcome = Inr (Inl \<lparr>pe_error = JsError ''Error'' (label @ detail),
                              pe_code = code,
                              pe_detail = DetailText detail\<rparr>))
   \<and> (\<forall>e. net sent rq = Rejects e \<longrightarrow>
         outcome = Inr (Inl \<lparr>pe_error = e, pe_code = ''unknown'', pe_detail = DetailError e\<rparr>))
   \<and> (\<forall>res e.
         net sent rq = Resolves res \<and> rs_ok res \<and> rs_json res = Inl e \<longrightarrow>
         outcome = Inr (Inl \<lparr>pe_error = e, pe_code = ''unknown'', pe_detail = DetailError e\<rparr>))"

section \<open>Objects and the gateway call\<close>

lemma js_field_update_same: "js_field (AList.update k v obj) k = v"
  by (simp add: js_field_def update_conv')

lemma js_field_update_other: "k' \<noteq> k \<Longrightarrow> js_field (AList.update k v obj) k' = js_field obj k'"
  by (simp add: js_field_def update_conv')

lemma update_twice: "AList.update k v (AList.update k v obj) = AList.update k v obj"
  by (induction obj) auto

lemma update_fresh: "k \<notin> fst ` set obj \<Longrightarrow> AList.update k v obj = obj @ [(k, v)]"
  by (induction obj) auto

text \<open>Copying an object whose keys are bound once changes nothing.\<close>

lemma obj_assign_distinct_append:
  "distinct (map fst (a @ b)) \<Longrightarrow> obj_assign a b = a @ b"
proof (induction b arbitrary: a)
  case Nil
  then show ?case by (simp add: obj_assign_def)
next
  case (Cons p b)
  obtain k v where p: "p = (k, v)" by (cases p)
  from Cons.prems p have fresh: "k \<notin> fst ` set a" by auto
  from Cons.prems p have "distinct (map fst ((a @ [(k, v)]) @ b))" by auto
  then have "obj_assign (a @ [(k, v)]) b = (a @ [(k, v)]) @ b" by (rule Cons.IH)
  with fresh p show ?case by (simp add: obj_assign_def update_fresh)
qed

lemma obj_assign_distinct: "distinct (map fst a) \<Longrightarrow> distinct (map fst (obj_assign a b))"
proof (induction b arbitrary: a)
  case Nil
  then show ?case by (simp add: obj_assign_def)
next
  case (Cons p b)
  obtain k v where p: "p = (k, v)" by (cases p)
  have "distinct (map fst (AList.update k v a))" using Cons.prems by (simp add: distinct_update)
  then have "distinct (map fst (obj_assign (AList.update k v a) b))" by (rule Cons.IH)
  with p show ?case by (simp add: obj_assign_def)
qed

text \<open>The result of a gateway call, by the answer its request got; and the request it adds.\<close>

lemma fst_gateway_call:
  "fst (gateway_call net rq label code rest sent) =
     Inr (case net sent rq of
            Rejects e \<Rightarrow> Inl \<lparr>pe_error = e, pe_code = ''unknown'', pe_detail = DetailError e\<rparr>
          | Resolves res \<Rightarrow>
              if \<not> rs_ok res then
                (case rs_text res of
                   Inl e \<Rightarrow> Inl \<lparr>pe_error = e, pe_code = ''unknown'', pe_detail = DetailError e\<rparr>
                 | Inr detail \<Rightarrow>
                     Inl \<lparr>pe_error = JsError ''Error'' (label @ detail), pe_code = code,
                          pe_detail = DetailText detail\<rparr>)
              else
                (case rs_json res of
                   Inl e \<Rightarrow> Inl \<lparr>pe_error = e, pe_code = ''unknown'', pe_detail = DetailError e\<rparr>
                 | Inr data \<Rightarrow>
                     (case rest data of
                        Inl e \<Rightarrow> Inl \<lparr>pe_error = e, pe_code = ''unknown'', pe_detail = DetailError e\<rparr>
                      | Inr r \<Rightarrow> r)))"
  by (simp add: gateway_call_def fetch_def try_catch_def split: fetch_outcome.splits sum.splits)

lemma snd_gateway_call: "snd (gateway_call net rq label code rest sent) = sent @ [rq]"
  by (simp add: gateway_call_def fetch_def split: prod.splits)

lemma gateway_call_tagged:
  "tagged_outcome net sent rq label code (fst (gateway_call net rq label code rest sent))"
  by (simp add: tagged_outcome_def fst_gateway_call)

section \<open>The webhook signature\<close>

text \<open>
  Claim C1, as the code has it. The route computes the digest of
  \<^verbatim>\<open>JSON.stringify(req.body)\<close>, the parsed body serialised again, under the secret of
  the environment. With a secret configured and a body parsed, the check never throws
  and says true exactly when the \<^verbatim>\<open>x-hmac-sha384\<close> header is the hexadecimal
  HMAC-SHA384 of that payload: a header that differs, or none, gives false.
\<close>

theorem signature_check_with_secret:
  assumes "req_body req \<noteq> JUndefined"
  shows "signature_matches rt (Some secret) req =
           Inr (map_of (req_headers req) ''x-hmac-sha384''
                  = Some (hmac_sha384_hex rt secret (JSON_stringify rt (req_body req))))"
  using assms by (simp add: signature_matches_def createHmac_digest_def stringify_def)

text \<open>
  Under the secret \<^verbatim>\<open>s3cret\<close> and whatever the two runtime functions compute, the
  body \<^verbatim>\<open>{}\<close> sent with its own digest is accepted, and sent with \<^verbatim>\<open>00ff\<close> where the
  digest is another string, or with no signature header, it is refused.
\<close>

theorem signature_check_with_secret_witness:
  "\<forall>rt. signature_matches rt (Some ''s3cret'')
          \<lparr>req_body = JObj [],
           req_headers = [(''x-hmac-sha384'', hmac_sha384_hex rt ''s3cret'' (JSON_stringify rt (JObj [])))]\<rparr>
        = Inr True
      \<and> signature_matches rt (Some ''s3cret'')
          \<lparr>req_body = JObj [], req_headers = [(''x-hmac-sha384'', ''00ff'')]\<rparr>
        = Inr (hmac_sha384_hex rt ''s3cret'' (JSON_stringify rt (JObj [])) = ''00ff'')
      \<and> signature_matches rt (Some ''s3cret'') \<lparr>req_body = JObj [], req_headers = []\<rparr>
        = Inr False"
proof
  fix rt
  show "signature_matches rt (Some ''s3cret'')
          \<lparr>req_body = JObj [],
           req_headers = [(''x-hmac-sha384'', hmac_sha384_hex rt ''s3cret'' (JSON_stringify rt (JObj [])))]\<rparr>
        = Inr True
      \<and> signature_matches rt (Some ''s3cret'')
          \<lparr>req_body = JObj [], req_headers = [(''x-hmac-sha384'', ''00ff'')]\<rparr>
        = Inr (hmac_sha384_hex rt ''s3cret'' (JSON_stringify rt (JObj [])) = ''00ff'')
      \<and> signature_matches rt (Some ''s3cret'') \<lparr>req_body = JObj [], req_headers = []\<rparr>
        = Inr False"
    using signature_check_with_secret
            [where rt = rt and secret = "''s3cret''"
               and req = "\<lparr>req_body = JObj [],
                 req_headers = [(''x-hmac-sha384'', hmac_sha384_hex rt ''s3cret'' (JSON_stringify rt (JObj [])))]\<rparr>"]
          signature_check_with_secret
            [where rt = rt and secret = "''s3cret''"
               and req = "\<lparr>req_body = JObj [], req_headers = [(''x-hmac-sha384'', ''00ff'')]\<rparr>"]
          signature_check_with_secret
            [where rt = rt and secret = "''s3cret''"
               and req = "\<lparr>req_body = JObj [], req_headers = []\<rparr>"]
    by (simp add: eq_commute)
qed

text \<open>
  Claim C1 as stated fails where the shared secret is absent: the environment variable
  is unset, the body is \<^verbatim>\<open>{}\<close> and a signature is provided. The check does not answer
  false: it throws the TypeError of \<^verbatim>\<open>crypto.createHmac\<close>, before either runtime
  function is reached (the two given here stand in for them).
\<close>

theorem signature_check_without_secret_throws:
  "signature_matches
     \<lparr>JSON_stringify = (\<lambda>v. ''{}''), hmac_sha384_hex = (\<lambda>key payload. key @ payload)\<rparr>
     None
     \<lparr>req_body = JObj [], req_headers = [(''x-hmac-sha384'', ''00ff'')]\<rparr>
   = Inl (JsError ''TypeError''
       ''The key argument must be of type string or an instance of ArrayBuffer, Buffer, TypedArray, DataView, KeyObject, or CryptoKey. Received undefined'')"
  by (simp add: signature_matches_def createHmac_digest_def)

section \<open>The webhook handlers\<close>

text \<open>
  Claim C2, as the code has it. In the route \<^verbatim>\<open>/payment/webhook\<close>, a request whose
  signature check says false is answered 401 \<^verbatim>\<open>Invalid signature\<close>; no run of the
  route applies a session update, and a reply other than 401 is sent only after the check
  said true. The provider's \<^verbatim>\<open>getWebhookActionAndData\<close> is the other handler: it checks
  nothing, its result is the same whatever \<^verbatim>\<open>rawData\<close> and \<^verbatim>\<open>headers\<close> are.
\<close>

theorem webhook_route_rejects_mismatch:
  "(signature_matches rt secret req = Inr False \<longrightarrow>
      payment_webhook rt secret req =
        Inr \<lparr>re_reply = \<lparr>reply_status = 401, reply_text = ''Invalid signature''\<rparr>,
             re_updates = []\<rparr>)
   \<and> (\<forall>eff. payment_webhook rt secret req = Inr eff \<longrightarrow> re_updates eff = [])
   \<and> (\<forall>eff. payment_webhook rt secret req = Inr eff \<and> reply_status (re_reply eff) \<noteq> 401 \<longrightarrow>
         signature_matches rt secret req = Inr True)
   \<and> getWebhookActionAndData (payload\<lparr>wp_rawData := raw, wp_headers := hs\<rparr>)
       = getWebhookActionAndData payload"
  by (auto simp: payment_webhook_def try_catch_def getWebhookActionAndData_def
           split: sum.splits if_splits)

text \<open>
  Under the secret \<^verbatim>\<open>s3cret\<close> and whatever the two runtime functions compute, the
  body \<^verbatim>\<open>{}\<close> that comes with no signature header is answered 401.
\<close>

theorem webhook_route_rejects_mismatch_witness:
  "\<forall>rt. payment_webhook rt (Some ''s3cret'') \<lparr>req_body = JObj [], req_headers = []\<rparr>
        = Inr \<lparr>re_reply = \<lparr>reply_status = 401, reply_text = ''Invalid signature''\<rparr>,
               re_updates = []\<rparr>"
proof
  fix rt
  have "signature_matches rt (Some ''s3cret'') \<lparr>req_body = JObj [], req_headers = []\<rparr> = Inr False"
    by (simp add: signature_matches_def createHmac_digest_def stringify_def)
  with webhook_route_rejects_mismatch
         [where rt = rt and secret = "Some ''s3cret''"
            and req = "\<lparr>req_body = JObj [], req_headers = []\<rparr>", THEN conjunct1]
  show "payment_webhook rt (Some ''s3cret'') \<lparr>req_body = JObj [], req_headers = []\<rparr>
        = Inr \<lparr>re_reply = \<lparr>reply_status = 401, reply_text = ''Invalid signature''\<rparr>,
               re_updates = []\<rparr>"
    by simp
qed

text \<open>
  Claim C2 as stated fails for \<^verbatim>\<open>getWebhookActionAndData\<close>: a payload that carries no
  signature at all, which no secret verifies, is translated into the event
  \<^verbatim>\<open>authorized\<close> for the session \<^verbatim>\<open>fp_1\<close>.
\<close>

theorem unsigned_webhook_is_translated:
  "getWebhookActionAndData
     \<lparr>wp_data = [(''event_type'', JStr ''payment_authorized''), (''session_id'', JStr ''fp_1''),
                 (''amount'', JNum 1000)],
      wp_rawData = ''forged'',
      wp_headers = []\<rparr>
   = Inr \<lparr>wa_action = ''authorized'',
          wa_data = Some \<lparr>wf_session_id = JStr ''fp_1'', wf_amount = JNum 1000\<rparr>\<rparr>"
  by (simp add: getWebhookActionAndData_def try_catch_def js_field_def)

text \<open>
  Claim C3. The result of \<^verbatim>\<open>getWebhookActionAndData\<close> is a function of three fields
  of \<^verbatim>\<open>payload.data\<close>: two payloads that agree on \<^verbatim>\<open>event_type\<close>, \<^verbatim>\<open>session_id\<close>
  and \<^verbatim>\<open>amount\<close> give the same result, whatever else their data, their \<^verbatim>\<open>rawData\<close>
  and their \<^verbatim>\<open>headers\<close> hold. The handler verifies no signature.
\<close>

theorem webhook_action_depends_on_three_fields:
  assumes "js_field (wp_data p) ''event_type'' = js_field (wp_data q) ''event_type''"
    and "js_field (wp_data p) ''session_id'' = js_field (wp_data q) ''session_id''"
    and "js_field (wp_data p) ''amount'' = js_field (wp_data q) ''amount''"
  shows "getWebhookActionAndData p = getWebhookActionAndData q"
  using assms by (simp add: getWebhookActionAndData_def Let_def)

text \<open>Two payloads that differ in raw data, headers, field order and an extra field.\<close>

theorem webhook_action_depends_on_three_fields_witness:
  "getWebhookActionAndData
     \<lparr>wp_data = [(''event_type'', JStr ''payment_captured''), (''session_id'', JStr ''fp_1''),
                 (''amount'', JNum 1000)],
      wp_rawData = ''raw-one'',
      wp_headers = [(''x-hmac-sha384'', JStr ''00ff'')]\<rparr>
   = getWebhookActionAndData
     \<lparr>wp_data = [(''amount'', JNum 1000), (''note'', JStr ''other''),
                 (''session_id'', JStr ''fp_1''), (''event_type'', JStr ''payment_captured'')],
      wp_rawData = ''raw-two'',
      wp_headers = []\<rparr>"
  using webhook_action_depends_on_three_fields
    [of "\<lparr>wp_data = [(''event_type'', JStr ''payment_captured''), (''session_id'', JStr ''fp_1''),
                 (''amount'', JNum 1000)],
      wp_rawData = ''raw-one'',
      wp_headers = [(''x-hmac-sha384'', JStr ''00ff'')]\<rparr>"
        "\<lparr>wp_data = [(''amount'', JNum 1000), (''note'', JStr ''other''),
                 (''session_id'', JStr ''fp_1''), (''event_type'', JStr ''payment_captured'')],
      wp_rawData = ''raw-two'',
      wp_headers = []\<rparr>"]
  by (simp add: js_field_def)

section \<open>Errors of the gateway operations\<close>

lemma refund_throws:
  assumes "ensureAuthenticated gw service w = (Inr (), service1, w1)"
    and "refund_body payment amount = Inr body"
    and "gw_api gw (w_sent w1) (Custom_refund_request service1 body) = AxiosError message"
  shows "fst (Custom_refundPayment gw service payment amount w) =
           Inl (JsError ''Error'' (''Refund failed: '' @ message))"
  using assms by (simp add: Custom_refundPayment_def axios_post_def)

text \<open>
  Claim C4, as the code has it. Each of the seven operations of the FoxPay provider
  (initiate, authorize, capture, cancel, refund, retrieve, update) returns and never
  throws; a response outside 2xx gives the error record with the operation's own code
  (\<^verbatim>\<open>init_failed\<close>, \<^verbatim>\<open>status_failed\<close>, \<^verbatim>\<open>capture_failed\<close>, \<^verbatim>\<open>cancel_failed\<close>,
  \<^verbatim>\<open>refund_failed\<close>, \<^verbatim>\<open>retrieve_failed\<close>, \<^verbatim>\<open>update_failed\<close>) and the response text as
  detail; a transport failure and a body that does not decode give the code
  \<^verbatim>\<open>unknown\<close> with the error caught. The custom provider does otherwise: when its
  refund request fails, \<^verbatim>\<open>refundPayment\<close> throws \<^verbatim>\<open>Error("Refund failed: ...")\<close>.
\<close>

theorem foxpay_operations_return_tagged_results:
  "tagged_outcome net sent (initiate_request this context)
     ''FoxPay initiation failed: '' ''init_failed''
     (fst (initiatePayment this net context sent))
   \<and> tagged_outcome net sent (status_request this paymentData)
     ''FoxPay status check failed: '' ''status_failed''
     (fst (authorizePayment this net paymentData sent))
   \<and> tagged_outcome net sent (capture_request this paymentData)
     ''FoxPay capture failed: '' ''capture_failed''
     (fst (capturePayment this net paymentData sent))
   \<and> tagged_outcome net sent (cancel_request this paymentData)
     ''FoxPay cancel failed: '' ''cancel_failed''
     (fst (cancelPayment this net paymentData sent))
   \<and> tagged_outcome net sent (refund_request this paymentData refundAmount)
     ''FoxPay refund failed: '' ''refund_failed''
     (fst (refundPayment this net paymentData refundAmount sent))
   \<and> tagged_outcome net sent (retrieve_request this paymentData)
     ''FoxPay retrieve failed: '' ''retrieve_failed''
     (fst (retrievePayment this net paymentData sent))
   \<and> tagged_outcome net sent (update_request this update)
     ''FoxPay update failed: '' ''update_failed''
     (fst (updatePayment this net update sent))
   \<and> (\<forall>service1 w1 body message.
         ensureAuthenticated gw service w = (Inr (), service1, w1) \<and>
         refund_body payment amount = Inr body \<and>
         gw_api gw (w_sent w1) (Custom_refund_request service1 body) = AxiosError message \<longrightarrow>
         fst (Custom_refundPayment gw service payment amount w)
           = Inl (JsError ''Error'' (''Refund failed: '' @ message)))"
proof -
  have "\<forall>service1 w1 body message.
         ensureAuthenticated gw service w = (Inr (), service1, w1) \<and>
         refund_body payment amount = Inr body \<and>
         gw_api gw (w_sent w1) (Custom_refund_request service1 body) = AxiosError message \<longrightarrow>
         fst (Custom_refundPayment gw service payment amount w)
           = Inl (JsError ''Error'' (''Refund failed: '' @ message))"
    using refund_throws by blast
  then show ?thesis
    unfolding initiatePayment_def authorizePayment_def capturePayment_def cancelPayment_def
      refundPayment_def retrievePayment_def updatePayment_def
    by (intro conjI gateway_call_tagged)
qed

text \<open>
  A capture answered 402 \<^verbatim>\<open>card declined\<close>, and a refund whose request cannot be sent.
\<close>

theorem foxpay_operations_return_tagged_results_witness:
  "fst (capturePayment (FoxPayProviderService \<lparr>apiKey = ''key'', foxpayBaseUrl = None\<rparr>)
     (\<lambda>sent rq. Resolves \<lparr>rs_ok = False, rs_text = Inr ''card declined'',
                            rs_json = Inl (JsError ''SyntaxError'' ''Unexpected token'')\<rparr>)
     [(''id'', JStr ''fp_1'')] [])
   = Inr (Inl \<lparr>pe_error = JsError ''Error'' ''FoxPay capture failed: card declined'',
               pe_code = ''capture_failed'',
               pe_detail = DetailText ''card declined''\<rparr>)
   \<and> fst (refundPayment (FoxPayProviderService \<lparr>apiKey = ''key'', foxpayBaseUrl = None\<rparr>)
     (\<lambda>sent rq. Rejects (JsError ''TypeError'' ''fetch failed''))
     [(''id'', JStr ''fp_1'')] (JNum 500) [])
   = Inr (Inl \<lparr>pe_error = JsError ''TypeError'' ''fetch failed'',
               pe_code = ''unknown'',
               pe_detail = DetailError (JsError ''TypeError'' ''fetch failed'')\<rparr>)"
proof -
  note declined = foxpay_operations_return_tagged_results
    [where net = "\<lambda>sent rq. Resolves \<lparr>rs_ok = False, rs_text = Inr ''card declined'',
                            rs_json = Inl (JsError ''SyntaxError'' ''Unexpected token'')\<rparr>"
       and sent = "[]"
       and this = "FoxPayProviderService \<lparr>apiKey = ''key'', foxpayBaseUrl = None\<rparr>"
       and paymentData = "[(''id'', JStr ''fp_1'')]",
     THEN conjunct2, THEN conjunct2, THEN conjunct1]
  note unreachable = foxpay_operations_return_tagged_results
    [where net = "\<lambda>sent rq. Rejects (JsError ''TypeError'' ''fetch failed'')"
       and sent = "[]"
       and this = "FoxPayProviderService \<lparr>apiKey = ''key'', foxpayBaseUrl = None\<rparr>"
       and paymentData = "[(''id'', JStr ''fp_1'')]"
       and refundAmount = "JNum 500",
     THEN conjunct2, THEN conjunct2, THEN conjunct2, THEN conjunct2, THEN conjunct1]
  from declined unreachable show ?thesis
    by (simp add: tagged_outcome_def)
qed

text \<open>
  Claim C4 as stated fails for the custom provider: with a token obtained, a refund of
  500 that the processor answers with status 500 makes \<^verbatim>\<open>refundPayment\<close> throw.
\<close>

theorem custom_refund_throws:
  "fst (Custom_refundPayment
     \<lparr>gw_token = (\<lambda>sent rq. AxiosResponse \<lparr>tr_accessToken = ''tok_1'', tr_expiresIn = 3600\<rparr>),
      gw_api = (\<lambda>sent rq. AxiosError ''Request failed with status code 500''),
      gw_latency = (\<lambda>sent rq. 0)\<rparr>
     (CustomPaymentProviderService
        \<lparr>PAYMENT_PROVIDER_API_URL = None, PAYMENT_PROVIDER_AUTH_URL = None,
         PAYMENT_PROVIDER_ACCESS_KEY = Some ''access'', PAYMENT_PROVIDER_SECRET_KEY = Some ''secret'',
         BACKEND_URL = None\<rparr>)
     [(''data'', JObj [(''transactionId'', JStr ''tx_1'')])]
     500
     \<lparr>w_sent = [], w_now = 1000\<rparr>)
   = Inl (JsError ''Error'' ''Refund failed: Request failed with status code 500'')"
  by (simp add: Custom_refundPayment_def ensureAuthenticated_def authenticate_def axios_post_def
        CustomPaymentProviderService_def token_missing_def refund_body_def js_field_def env_or_def)

section \<open>The access token\<close>

lemma ensure_refreshes:
  assumes "token_missing this \<or> token_expired this (w_now w)"
  shows "ensureAuthenticated gw this w = authenticate gw this w"
  using assms by (simp add: ensureAuthenticated_def)

lemma authenticate_sends:
  "w_sent (snd (snd (authenticate gw this w))) = w_sent w @ [token_request this]"
  by (simp add: authenticate_def axios_post_def split: axios_outcome.splits)

lemma authenticate_replaces:
  assumes "gw_token gw (w_sent w) (token_request this) = AxiosResponse reply"
  shows "fst (snd (authenticate gw this w)) =
           this\<lparr>accessToken := Some (tr_accessToken reply),
                tokenExpiry := Some (w_now (snd (snd (authenticate gw this w)))
                                     + tr_expiresIn reply * 1000)\<rparr>"
  using assms by (simp add: authenticate_def axios_post_def)

lemma ensure_cached:
  assumes "accessToken this = Some token" and "token \<noteq> []"
    and "tokenExpiry this = Some expiry" and "w_now w < expiry"
  shows "ensureAuthenticated gw this w = (Inr (), this, w)"
  using assms by (simp add: ensureAuthenticated_def token_missing_def token_expired_def)

text \<open>
  Claim C5. \<^verbatim>\<open>ensureAuthenticated\<close> sends the token request exactly when no token is
  cached (the field is \<^verbatim>\<open>null\<close>, or holds the empty string, which JavaScript takes for
  absent) or the clock has reached the cached expiry; otherwise it sends nothing and
  changes nothing. So with a cached token whose expiry lies ahead, two calls in a row
  leave the same token and send no request. A refresh overwrites both fields: the token
  is the one answered, the expiry is the clock at the answer plus the lifetime. The
  lifetime \<^verbatim>\<open>expiresIn\<close> counts seconds and \<^verbatim>\<open>Date.now()\<close> milliseconds, so the sum is
  \<open>now + expiresIn * 1000\<close>; under a fixed clock (no time passes during the request)
  \<open>now\<close> is the time of the call.
\<close>

theorem token_refresh_rule:
  "(accessToken this = None \<or> accessToken this = Some [] \<longrightarrow>
      w_sent (snd (snd (ensureAuthenticated gw this w))) = w_sent w @ [token_request this])
   \<and> (\<forall>token expiry.
        accessToken this = Some token \<and> token \<noteq> [] \<and> tokenExpiry this = Some expiry \<longrightarrow>
        w_sent (snd (snd (ensureAuthenticated gw this w)))
          = w_sent w @ (if expiry \<le> w_now w then [token_request this] else []))
   \<and> (\<forall>token expiry.
        accessToken this = Some token \<and> token \<noteq> [] \<and> tokenExpiry this = Some expiry \<and>
        w_now w < expiry \<longrightarrow>
        ensureAuthenticated gw this w = (Inr (), this, w) \<and>
        ensureAuthenticated gw (fst (snd (ensureAuthenticated gw this w)))
            (snd (snd (ensureAuthenticated gw this w)))
          = (Inr (), this, w))
   \<and> (\<forall>reply.
        (token_missing this \<or> token_expired this (w_now w)) \<and>
        gw_token gw (w_sent w) (token_request this) = AxiosResponse reply \<longrightarrow>
        fst (snd (ensureAuthenticated gw this w)) =
          this\<lparr>accessToken := Some (tr_accessToken reply),
               tokenExpiry := Some (w_now (snd (snd (ensureAuthenticated gw this w)))
                                    + tr_expiresIn reply * 1000)\<rparr>)
   \<and> (gw_latency gw (w_sent w) (token_request this) = 0 \<longrightarrow>
        w_now (snd (snd (ensureAuthenticated gw this w))) = w_now w)"
proof (intro conjI)
  show "accessToken this = None \<or> accessToken this = Some [] \<longrightarrow>
      w_sent (snd (snd (ensureAuthenticated gw this w))) = w_sent w @ [token_request this]"
    by (simp add: ensureAuthenticated_def token_missing_def authenticate_sends)
  show "\<forall>token expiry.
        accessToken this = Some token \<and> token \<noteq> [] \<and> tokenExpiry this = Some expiry \<longrightarrow>
        w_sent (snd (snd (ensureAuthenticated gw this w)))
          = w_sent w @ (if expiry \<le> w_now w then [token_request this] else [])"
    by (simp add: ensureAuthenticated_def token_missing_def token_expired_def authenticate_sends)
  show "\<forall>token expiry.
        accessToken this = Some token \<and> token \<noteq> [] \<and> tokenExpiry this = Some expiry \<and>
        w_now w < expiry \<longrightarrow>
        ensureAuthenticated gw this w = (Inr (), this, w) \<and>
        ensureAuthenticated gw (fst (snd (ensureAuthenticated gw this w)))
            (snd (snd (ensureAuthenticated gw this w)))
          = (Inr (), this, w)"
    by (simp add: ensure_cached)
  show "\<forall>reply.
        (token_missing this \<or> token_expired this (w_now w)) \<and>
        gw_token gw (w_sent w) (token_request this) = AxiosResponse reply \<longrightarrow>
        fst (snd (ensureAuthenticated gw this w)) =
          this\<lparr>accessToken := Some (tr_accessToken reply),
               tokenExpiry := Some (w_now (snd (snd (ensureAuthenticated gw this w)))
                                    + tr_expiresIn reply * 1000)\<rparr>"
    using authenticate_replaces by (simp add: ensure_refreshes)
  show "gw_latency gw (w_sent w) (token_request this) = 0 \<longrightarrow>
        w_now (snd (snd (ensureAuthenticated gw this w))) = w_now w"
    by (simp add: ensureAuthenticated_def authenticate_def axios_post_def
          split: axios_outcome.splits)
qed

text \<open>
  A fresh service at clock 1000, under a fixed clock: the first call sends the token
  request and caches \<^verbatim>\<open>tok_1\<close> until 3601000; the second call, at the same clock,
  leaves that state and sends nothing.
\<close>

theorem token_refresh_rule_witness:
  "ensureAuthenticated
     \<lparr>gw_token = (\<lambda>sent rq. AxiosResponse \<lparr>tr_accessToken = ''tok_1'', tr_expiresIn = 3600\<rparr>),
      gw_api = (\<lambda>sent rq. AxiosError ''unused''),
      gw_latency = (\<lambda>sent rq. 0)\<rparr>
     \<lparr>apiUrl = ''https://api.wlpis.io'', authUrl = ''https://auth.wlpis.io'',
      accessKey = Some ''access'', secretKey = Some ''secret'',
      accessToken = None, tokenExpiry = None\<rparr>
     \<lparr>w_sent = [], w_now = 1000\<rparr>
   = (Inr (),
      \<lparr>apiUrl = ''https://api.wlpis.io'', authUrl = ''https://auth.wlpis.io'',
       accessKey = Some ''access'', secretKey = Some ''secret'',
       accessToken = Some ''tok_1'', tokenExpiry = Some 3601000\<rparr>,
      \<lparr>w_sent = [\<lparr>ax_url = ''https://auth.wlpis.io/api/token/project'',
                  ax_data = TokenBody (Some ''access'') (Some ''secret''),
                  ax_headers = [(''Content-Type'', ''application/json'')]\<rparr>],
       w_now = 1000\<rparr>)
   \<and> ensureAuthenticated
     \<lparr>gw_token = (\<lambda>sent rq. AxiosResponse \<lparr>tr_accessToken = ''tok_2'', tr_expiresIn = 3600\<rparr>),
      gw_api = (\<lambda>sent rq. AxiosError ''unused''),
      gw_latency = (\<lambda>sent rq. 0)\<rparr>
     \<lparr>apiUrl = ''https://api.wlpis.io'', authUrl = ''https://auth.wlpis.io'',
      accessKey = Some ''access'', secretKey = Some ''secret'',
      accessToken = Some ''tok_1'', tokenExpiry = Some 3601000\<rparr>
     \<lparr>w_sent = [\<lparr>ax_url = ''https://auth.wlpis.io/api/token/project'',
                 ax_data = TokenBody (Some ''access'') (Some ''secret''),
                 ax_headers = [(''Content-Type'', ''application/json'')]\<rparr>],
      w_now = 1000\<rparr>
   = (Inr (),
      \<lparr>apiUrl = ''https://api.wlpis.io'', authUrl = ''https://auth.wlpis.io'',
       accessKey = Some ''access'', secretKey = Some ''secret'',
       accessToken = Some ''tok_1'', tokenExpiry = Some 3601000\<rparr>,
      \<lparr>w_sent = [\<lparr>ax_url = ''https://auth.wlpis.io/api/token/project'',
                  ax_data = TokenBody (Some ''access'') (Some ''secret''),
                  ax_headers = [(''Content-Type'', ''application/json'')]\<rparr>],
       w_now = 1000\<rparr>)"
proof -
  note cached = token_refresh_rule
    [where this = "\<lparr>apiUrl = ''https://api.wlpis.io'', authUrl = ''https://auth.wlpis.io'',
      accessKey = Some ''access'', secretKey = Some ''secret'',
      accessToken = Some ''tok_1'', tokenExpiry = Some 3601000\<rparr>"
       and w = "\<lparr>w_sent = [\<lparr>ax_url = ''https://auth.wlpis.io/api/token/project'',
                 ax_data = TokenBody (Some ''access'') (Some ''secret''),
                 ax_headers = [(''Content-Type'', ''application/json'')]\<rparr>],
      w_now = 1000\<rparr>"
       and gw = "\<lparr>gw_token = (\<lambda>sent rq. AxiosResponse \<lparr>tr_accessToken = ''tok_2'', tr_expiresIn = 3600\<rparr>),
      gw_api = (\<lambda>sent rq. AxiosError ''unused''),
      gw_latency = (\<lambda>sent rq. 0)\<rparr>",
     THEN conjunct2, THEN conjunct2, THEN conjunct1]
  note refreshed = token_refresh_rule
    [where this = "\<lparr>apiUrl = ''https://api.wlpis.io'', authUrl = ''https://auth.wlpis.io'',
      accessKey = Some ''access'', secretKey = Some ''secret'',
      accessToken = None, tokenExpiry = None\<rparr>"
       and w = "\<lparr>w_sent = [], w_now = 1000\<rparr>"
       and gw = "\<lparr>gw_token = (\<lambda>sent rq. AxiosResponse \<lparr>tr_accessToken = ''tok_1'', tr_expiresIn = 3600\<rparr>),
      gw_api = (\<lambda>sent rq. AxiosError ''unused''),
      gw_latency = (\<lambda>sent rq. 0)\<rparr>"]
  note sends = refreshed [THEN conjunct1]
  note replaces = refreshed [THEN conjunct2, THEN conjunct2, THEN conjunct2, THEN conjunct1]
  note clock = refreshed [THEN conjunct2, THEN conjunct2, THEN conjunct2, THEN conjunct2]
  have returns: "fst (ensureAuthenticated
     \<lparr>gw_token = (\<lambda>sent rq. AxiosResponse \<lparr>tr_accessToken = ''tok_1'', tr_expiresIn = 3600\<rparr>),
      gw_api = (\<lambda>sent rq. AxiosError ''unused''),
      gw_latency = (\<lambda>sent rq. 0)\<rparr>
     \<lparr>apiUrl = ''https://api.wlpis.io'', authUrl = ''https://auth.wlpis.io'',
      accessKey = Some ''access'', secretKey = Some ''secret'',
      accessToken = None, tokenExpiry = None\<rparr>
     \<lparr>w_sent = [], w_now = 1000\<rparr>) = Inr ()"
    by (simp add: ensureAuthenticated_def token_missing_def authenticate_def axios_post_def)
  from clock have now: "w_now (snd (snd (ensureAuthenticated
     \<lparr>gw_token = (\<lambda>sent rq. AxiosResponse \<lparr>tr_accessToken = ''tok_1'', tr_expiresIn = 3600\<rparr>),
      gw_api = (\<lambda>sent rq. AxiosError ''unused''),
      gw_latency = (\<lambda>sent rq. 0)\<rparr>
     \<lparr>apiUrl = ''https://api.wlpis.io'', authUrl = ''https://auth.wlpis.io'',
      accessKey = Some ''access'', secretKey = Some ''secret'',
      accessToken = None, tokenExpiry = None\<rparr>
     \<lparr>w_sent = [], w_now = 1000\<rparr>))) = 1000"
    by simp
  from sends have sent: "w_sent (snd (snd (ensureAuthenticated
     \<lparr>gw_token = (\<lambda>sent rq. AxiosResponse \<lparr>tr_accessToken = ''tok_1'', tr_expiresIn = 3600\<rparr>),
      gw_api = (\<lambda>sent rq. AxiosError ''unused''),
      gw_latency = (\<lambda>sent rq. 0)\<rparr>
     \<lparr>apiUrl = ''https://api.wlpis.io'', authUrl = ''https://auth.wlpis.io'',
      accessKey = Some ''access'', secretKey = Some ''secret'',
      accessToken = None, tokenExpiry = None\<rparr>
     \<lparr>w_sent = [], w_now = 1000\<rparr>)))
     = [\<lparr>ax_url = ''https://auth.wlpis.io/api/token/project'',
                  ax_data = TokenBody (Some ''access'') (Some ''secret''),
                  ax_headers = [(''Content-Type'', ''application/json'')]\<rparr>]"
    by (simp add: token_request_def)
  from replaces now have service: "fst (snd (ensureAuthenticated
     \<lparr>gw_token = (\<lambda>sent rq. AxiosResponse \<lparr>tr_accessToken = ''tok_1'', tr_expiresIn = 3600\<rparr>),
      gw_api = (\<lambda>sent rq. AxiosError ''unused''),
      gw_latency = (\<lambda>sent rq. 0)\<rparr>
     \<lparr>apiUrl = ''https://api.wlpis.io'', authUrl = ''https://auth.wlpis.io'',
      accessKey = Some ''access'', secretKey = Some ''secret'',
      accessToken = None, tokenExpiry = None\<rparr>
     \<lparr>w_sent = [], w_now = 1000\<rparr>))
     = \<lparr>apiUrl = ''https://api.wlpis.io'', authUrl = ''https://auth.wlpis.io'',
       accessKey = Some ''access'', secretKey = Some ''secret'',
       accessToken = Some ''tok_1'', tokenExpiry = Some 3601000\<rparr>"
    by (simp add: token_missing_def)
  have first: "ensureAuthenticated
     \<lparr>gw_token = (\<lambda>sent rq. AxiosResponse \<lparr>tr_accessToken = ''tok_1'', tr_expiresIn = 3600\<rparr>),
      gw_api = (\<lambda>sent rq. AxiosError ''unused''),
      gw_latency = (\<lambda>sent rq. 0)\<rparr>
     \<lparr>apiUrl = ''https://api.wlpis.io'', authUrl = ''https://auth.wlpis.io'',
      accessKey = Some ''access'', secretKey = Some ''secret'',
      accessToken = None, tokenExpiry = None\<rparr>
     \<lparr>w_sent = [], w_now = 1000\<rparr>
   = (Inr (),
      \<lparr>apiUrl = ''https://api.wlpis.io'', authUrl = ''https://auth.wlpis.io'',
       accessKey = Some ''access'', secretKey = Some ''secret'',
       accessToken = Some ''tok_1'', tokenExpiry = Some 3601000\<rparr>,
      \<lparr>w_sent = [\<lparr>ax_url = ''https://auth.wlpis.io/api/token/project'',
                  ax_data = TokenBody (Some ''access'') (Some ''secret''),
                  ax_headers = [(''Content-Type'', ''application/json'')]\<rparr>],
       w_now = 1000\<rparr>)"
    using returns service sent now
    by (simp add: prod_eq_iff world.equality)
  from cached have second: "ensureAuthenticated
     \<lparr>gw_token = (\<lambda>sent rq. AxiosResponse \<lparr>tr_accessToken = ''tok_2'', tr_expiresIn = 3600\<rparr>),
      gw_api = (\<lambda>sent rq. AxiosError ''unused''),
      gw_latency = (\<lambda>sent rq. 0)\<rparr>
     \<lparr>apiUrl = ''https://api.wlpis.io'', authUrl = ''https://auth.wlpis.io'',
      accessKey = Some ''access'', secretKey = Some ''secret'',
      accessToken = Some ''tok_1'', tokenExpiry = Some 3601000\<rparr>
     \<lparr>w_sent = [\<lparr>ax_url = ''https://auth.wlpis.io/api/token/project'',
                 ax_data = TokenBody (Some ''access'') (Some ''secret''),
                 ax_headers = [(''Content-Type'', ''application/json'')]\<rparr>],
      w_now = 1000\<rparr>
   = (Inr (),
      \<lparr>apiUrl = ''https://api.wlpis.io'', authUrl = ''https://auth.wlpis.io'',
       accessKey = Some ''access'', secretKey = Some ''secret'',
       accessToken = Some ''tok_1'', tokenExpiry = Some 3601000\<rparr>,
      \<lparr>w_sent = [\<lparr>ax_url = ''https://auth.wlpis.io/api/token/project'',
                  ax_data = TokenBody (Some ''access'') (Some ''secret''),
                  ax_headers = [(''Content-Type'', ''application/json'')]\<rparr>],
       w_now = 1000\<rparr>)"
    by simp
  from first second show ?thesis by (rule conjI)
qed

section \<open>Authorizing a payment\<close>

lemma fst_authorizePayment:
  "fst (authorizePayment this net pd sent) =
     Inr (case net sent (status_request this pd) of
            Rejects e \<Rightarrow> Inl \<lparr>pe_error = e, pe_code = ''unknown'', pe_detail = DetailError e\<rparr>
          | Resolves res \<Rightarrow>
              if \<not> rs_ok res then
                (case rs_text res of
                   Inl e \<Rightarrow> Inl \<lparr>pe_error = e, pe_code = ''unknown'', pe_detail = DetailError e\<rparr>
                 | Inr detail \<Rightarrow>
                     Inl \<lparr>pe_error = JsError ''Error'' (''FoxPay status check failed: '' @ detail),
                          pe_code = ''status_failed'', pe_detail = DetailText detail\<rparr>)
              else
                (case rs_json res of
                   Inl e \<Rightarrow> Inl \<lparr>pe_error = e, pe_code = ''unknown'', pe_detail = DetailError e\<rparr>
                 | Inr data \<Rightarrow>
                     (case js_prop data ''status'' of
                        Inl e \<Rightarrow> Inl \<lparr>pe_error = e, pe_code = ''unknown'', pe_detail = DetailError e\<rparr>
                      | Inr st \<Rightarrow>
                          if st = JStr ''authorized'' then
                            Inr \<lparr>ar_status = ''authorized'', ar_data = obj_assign [] pd\<rparr>
                          else
                            Inl \<lparr>pe_error = JsError ''Error'' ''Payment not yet authorized'',
                                 pe_code = ''not_authorized'',
                                 pe_detail = DetailText ''Still pending user action''\<rparr>)))"
  by (simp add: authorizePayment_def fst_gateway_call split: fetch_outcome.splits sum.splits)

lemma authorized_iff:
  "fst (authorizePayment this net pd sent)
     = Inr (Inr \<lparr>ar_status = ''authorized'', ar_data = obj_assign [] pd\<rparr>)
   \<longleftrightarrow> (\<exists>res data. net sent (status_request this pd) = Resolves res \<and> rs_ok res \<and>
          rs_json res = Inr data \<and> js_prop data ''status'' = Inr (JStr ''authorized''))"
proof (cases "net sent (status_request this pd)")
  case (Rejects e)
  then show ?thesis by (simp add: fst_authorizePayment)
next
  case (Resolves res)
  show ?thesis
  proof (cases "rs_ok res")
    case False
    with Resolves show ?thesis by (simp add: fst_authorizePayment split: sum.splits)
  next
    case True
    show ?thesis
    proof (cases "rs_json res")
      case (Inl e)
      with Resolves True show ?thesis by (simp add: fst_authorizePayment)
    next
      case (Inr data)
      show ?thesis
      proof (cases "js_prop data ''status''")
        case (Inl e)
        with Resolves True Inr show ?thesis by (simp add: fst_authorizePayment)
      next
        case st: (Inr st)
        with Resolves True Inr show ?thesis by (simp add: fst_authorizePayment)
      qed
    qed
  qed
qed

lemma authorized_only:
  assumes "fst (authorizePayment this net pd sent) = Inr (Inr r)"
  shows "r = \<lparr>ar_status = ''authorized'', ar_data = obj_assign [] pd\<rparr>"
proof (cases "net sent (status_request this pd)")
  case (Rejects e)
  with assms show ?thesis by (simp add: fst_authorizePayment)
next
  case (Resolves res)
  show ?thesis
  proof (cases "rs_ok res")
    case False
    with Resolves assms show ?thesis by (simp add: fst_authorizePayment split: sum.splits)
  next
    case True
    show ?thesis
    proof (cases "rs_json res")
      case (Inl e)
      with Resolves True assms show ?thesis by (simp add: fst_authorizePayment)
    next
      case (Inr data)
      show ?thesis
      proof (cases "js_prop data ''status''")
        case (Inl e)
        with Resolves True Inr assms show ?thesis by (simp add: fst_authorizePayment)
      next
        case st: (Inr st)
        with Resolves True Inr assms show ?thesis
          by (simp add: fst_authorizePayment split: if_splits)
      qed
    qed
  qed
qed

text \<open>
  Claim C6, as the code has it. The FoxPay \<^verbatim>\<open>authorizePayment\<close> sends one request, the
  status query for the session's \<^verbatim>\<open>id\<close>. It returns \<^verbatim>\<open>authorized\<close>, with a copy of the
  session data, exactly when the query is answered 2xx with a body whose \<^verbatim>\<open>status\<close> is
  the string \<^verbatim>\<open>authorized\<close>, and it returns nothing else as a success. A query answered
  2xx with any other status gives the error \<^verbatim>\<open>not_authorized\<close>; a query answered
  outside 2xx gives \<^verbatim>\<open>status_failed\<close> with the response text; a query that cannot be
  sent gives \<^verbatim>\<open>unknown\<close>. An error carries no session data, and the session data passed
  in is never written. The custom provider's \<^verbatim>\<open>authorizePayment\<close> asks nobody: it
  returns \<^verbatim>\<open>authorized\<close> with the session's data for every session.
\<close>

theorem authorizePayment_outcomes:
  "snd (authorizePayment this net pd sent) = sent @ [status_request this pd]
   \<and> rq_url (status_request this pd) = baseUrl this @ ''/status/'' @ ToString (js_field pd ''id'')
   \<and> (fst (authorizePayment this net pd sent)
         = Inr (Inr \<lparr>ar_status = ''authorized'', ar_data = obj_assign [] pd\<rparr>)
       \<longleftrightarrow> (\<exists>res data. net sent (status_request this pd) = Resolves res \<and> rs_ok res \<and>
              rs_json res = Inr data \<and> js_prop data ''status'' = Inr (JStr ''authorized'')))
   \<and> (\<forall>r. fst (authorizePayment this net pd sent) = Inr (Inr r) \<longrightarrow>
         r = \<lparr>ar_status = ''authorized'', ar_data = obj_assign [] pd\<rparr>)
   \<and> (\<forall>res data st.
         net sent (status_request this pd) = Resolves res \<and> rs_ok res \<and>
         rs_json res = Inr data \<and> js_prop data ''status'' = Inr st \<and> st \<noteq> JStr ''authorized'' \<longrightarrow>
         fst (authorizePayment this net pd sent)
           = Inr (Inl \<lparr>pe_error = JsError ''Error'' ''Payment not yet authorized'',
                       pe_code = ''not_authorized'',
                       pe_detail = DetailText ''Still pending user action''\<rparr>))
   \<and> (\<forall>res detail.
         net sent (status_request this pd) = Resolves res \<and> \<not> rs_ok res \<and>
         rs_text res = Inr detail \<longrightarrow>
         fst (authorizePayment this net pd sent)
           = Inr (Inl \<lparr>pe_error = JsError ''Error'' (''FoxPay status check failed: '' @ detail),
                       pe_code = ''status_failed'',
                       pe_detail = DetailText detail\<rparr>))
   \<and> (\<forall>e. net sent (status_request this pd) = Rejects e \<longrightarrow>
         fst (authorizePayment this net pd sent)
           = Inr (Inl \<lparr>pe_error = e, pe_code = ''unknown'', pe_detail = DetailError e\<rparr>))
   \<and> Custom_authorizePayment paymentSession context
       = Inr \<lparr>cr_status = ''authorized'', cr_data = js_field paymentSession ''data''\<rparr>"
proof (intro conjI)
  show "snd (authorizePayment this net pd sent) = sent @ [status_request this pd]"
    by (simp add: authorizePayment_def snd_gateway_call)
  show "rq_url (status_request this pd) = baseUrl this @ ''/status/'' @ ToString (js_field pd ''id'')"
    by (simp add: status_request_def get_with_id_def)
  show "fst (authorizePayment this net pd sent)
         = Inr (Inr \<lparr>ar_status = ''authorized'', ar_data = obj_assign [] pd\<rparr>)
       \<longleftrightarrow> (\<exists>res data. net sent (status_request this pd) = Resolves res \<and> rs_ok res \<and>
              rs_json res = Inr data \<and> js_prop data ''status'' = Inr (JStr ''authorized''))"
    by (rule authorized_iff)
  show "\<forall>r. fst (authorizePayment this net pd sent) = Inr (Inr r) \<longrightarrow>
         r = \<lparr>ar_status = ''authorized'', ar_data = obj_assign [] pd\<rparr>"
    using authorized_only by blast
  show "\<forall>res data st.
         net sent (status_request this pd) = Resolves res \<and> rs_ok res \<and>
         rs_json res = Inr data \<and> js_prop data ''status'' = Inr st \<and> st \<noteq> JStr ''authorized'' \<longrightarrow>
         fst (authorizePayment this net pd sent)
           = Inr (Inl \<lparr>pe_error = JsError ''Error'' ''Payment not yet authorized'',
                       pe_code = ''not_authorized'',
                       pe_detail = DetailText ''Still pending user action''\<rparr>)"
    by (simp add: fst_authorizePayment)
  show "\<forall>res detail.
         net sent (status_request this pd) = Resolves res \<and> \<not> rs_ok res \<and>
         rs_text res = Inr detail \<longrightarrow>
         fst (authorizePayment this net pd sent)
           = Inr (Inl \<lparr>pe_error = JsError ''Error'' (''FoxPay status check failed: '' @ detail),
                       pe_code = ''status_failed'',
                       pe_detail = DetailText detail\<rparr>)"
    by (simp add: fst_authorizePayment)
  show "\<forall>e. net sent (status_request this pd) = Rejects e \<longrightarrow>
         fst (authorizePayment this net pd sent)
           = Inr (Inl \<lparr>pe_error = e, pe_code = ''unknown'', pe_detail = DetailError e\<rparr>)"
    by (simp add: fst_authorizePayment)
  show "Custom_authorizePayment paymentSession context
       = Inr \<lparr>cr_status = ''authorized'', cr_data = js_field paymentSession ''data''\<rparr>"
    by (simp add: Custom_authorizePayment_def)
qed

text \<open>
  The session \<^verbatim>\<open>fp_1\<close> while the processor reports \<^verbatim>\<open>pending\<close>: the error
  \<^verbatim>\<open>not_authorized\<close>, after one GET of \<^verbatim>\<open>/status/fp_1\<close>.
\<close>

theorem authorizePayment_outcomes_witness:
  "fst (authorizePayment (FoxPayProviderService \<lparr>apiKey = ''key'', foxpayBaseUrl = None\<rparr>)
     (\<lambda>sent rq. Resolves \<lparr>rs_ok = True, rs_text = Inr ''pending'',
                            rs_json = Inr (JObj [(''status'', JStr ''pending'')])\<rparr>)
     [(''id'', JStr ''fp_1'')] [])
   = Inr (Inl \<lparr>pe_error = JsError ''Error'' ''Payment not yet authorized'',
               pe_code = ''not_authorized'',
               pe_detail = DetailText ''Still pending user action''\<rparr>)
   \<and> snd (authorizePayment (FoxPayProviderService \<lparr>apiKey = ''key'', foxpayBaseUrl = None\<rparr>)
     (\<lambda>sent rq. Resolves \<lparr>rs_ok = True, rs_text = Inr ''pending'',
                            rs_json = Inr (JObj [(''status'', JStr ''pending'')])\<rparr>)
     [(''id'', JStr ''fp_1'')] [])
   = [\<lparr>rq_url = ''https://api.foxpay.com/status/fp_1'', rq_method = ''GET'',
       rq_headers = [(''Authorization'', ''Bearer key'')], rq_body = None\<rparr>]"
proof -
  note all = authorizePayment_outcomes
    [where this = "FoxPayProviderService \<lparr>apiKey = ''key'', foxpayBaseUrl = None\<rparr>"
       and net = "\<lambda>sent rq. Resolves \<lparr>rs_ok = True, rs_text = Inr ''pending'',
                            rs_json = Inr (JObj [(''status'', JStr ''pending'')])\<rparr>"
       and pd = "[(''id'', JStr ''fp_1'')]" and sent = "[]"]
  note sent = all [THEN conjunct1]
  note pending = all [THEN conjunct2, THEN conjunct2, THEN conjunct2, THEN conjunct2, THEN conjunct1]
  from pending have "fst (authorizePayment (FoxPayProviderService \<lparr>apiKey = ''key'', foxpayBaseUrl = None\<rparr>)
     (\<lambda>sent rq. Resolves \<lparr>rs_ok = True, rs_text = Inr ''pending'',
                            rs_json = Inr (JObj [(''status'', JStr ''pending'')])\<rparr>)
     [(''id'', JStr ''fp_1'')] [])
   = Inr (Inl \<lparr>pe_error = JsError ''Error'' ''Payment not yet authorized'',
               pe_code = ''not_authorized'',
               pe_detail = DetailText ''Still pending user action''\<rparr>)"
    by (simp add: js_field_def)
  moreover from sent have "snd (authorizePayment (FoxPayProviderService \<lparr>apiKey = ''key'', foxpayBaseUrl = None\<rparr>)
     (\<lambda>sent rq. Resolves \<lparr>rs_ok = True, rs_text = Inr ''pending'',
                            rs_json = Inr (JObj [(''status'', JStr ''pending'')])\<rparr>)
     [(''id'', JStr ''fp_1'')] [])
   = [\<lparr>rq_url = ''https://api.foxpay.com/status/fp_1'', rq_method = ''GET'',
       rq_headers = [(''Authorization'', ''Bearer key'')], rq_body = None\<rparr>]"
    by (simp add: status_request_def get_with_id_def js_field_def bearer_def FoxPayProviderService_def)
  ultimately show ?thesis by (rule conjI)
qed

text \<open>
  Claim C6 as stated fails where the status query is refused: the processor answers 404
  \<^verbatim>\<open>unknown session\<close>, and the error returned is \<^verbatim>\<open>status_failed\<close>, not
  \<^verbatim>\<open>not_authorized\<close>.
\<close>

theorem authorize_status_query_refused:
  "fst (authorizePayment (FoxPayProviderService \<lparr>apiKey = ''key'', foxpayBaseUrl = None\<rparr>)
     (\<lambda>sent rq. Resolves \<lparr>rs_ok = False, rs_text = Inr ''unknown session'',
                            rs_json = Inl (JsError ''SyntaxError'' ''Unexpected token'')\<rparr>)
     [(''id'', JStr ''fp_1'')] [])
   = Inr (Inl \<lparr>pe_error = JsError ''Error'' ''FoxPay status check failed: unknown session'',
               pe_code = ''status_failed'',
               pe_detail = DetailText ''unknown session''\<rparr>)"
  by (simp add: fst_authorizePayment)

section \<open>The status of a payment\<close>

lemma fst_getPaymentStatus:
  "fst (getPaymentStatus this net pd sent) =
     Inr (case net sent (status_request this pd) of
            Rejects e \<Rightarrow> ''error''
          | Resolves res \<Rightarrow>
              if \<not> rs_ok res then ''error''
              else (case rs_json res of
                      Inl e \<Rightarrow> ''error''
                    | Inr data \<Rightarrow>
                        (case js_prop data ''status'' of
                           Inl e \<Rightarrow> ''error''
                         | Inr st \<Rightarrow> map_status st)))"
  by (simp add: getPaymentStatus_def fetch_def try_catch_def split: fetch_outcome.splits sum.splits)

lemma map_status_string:
  "map_status (JStr s) =
     (if s = ''authorized'' then ''authorized''
      else if s = ''captured'' then ''captured''
      else if s = ''canceled'' then ''canceled''
      else ''pending'')"
  by (simp add: map_status_def)

text \<open>
  Claim C7. When the status query is answered 2xx with a body whose \<^verbatim>\<open>status\<close> is the
  string \<open>s\<close>, \<^verbatim>\<open>getPaymentStatus\<close> returns \<^verbatim>\<open>authorized\<close>, \<^verbatim>\<open>captured\<close> or
  \<^verbatim>\<open>canceled\<close> for these three strings and \<^verbatim>\<open>pending\<close> for every other; when the
  answer is outside 2xx, or the request fails in transport, it returns
  \<^verbatim>\<open>error\<close>.
\<close>

theorem getPaymentStatus_mapping:
  "(\<forall>res data s.
      net sent (status_request this pd) = Resolves res \<and> rs_ok res \<and>
      rs_json res = Inr data \<and> js_prop data ''status'' = Inr (JStr s) \<longrightarrow>
      fst (getPaymentStatus this net pd sent) =
        Inr (if s = ''authorized'' then ''authorized''
             else if s = ''captured'' then ''captured''
             else if s = ''canceled'' then ''canceled''
             else ''pending''))
   \<and> (\<forall>res. net sent (status_request this pd) = Resolves res \<and> \<not> rs_ok res \<longrightarrow>
        fst (getPaymentStatus this net pd sent) = Inr ''error'')
   \<and> (\<forall>e. net sent (status_request this pd) = Rejects e \<longrightarrow>
        fst (getPaymentStatus this net pd sent) = Inr ''error'')"
  by (simp add: fst_getPaymentStatus map_status_string)

text \<open>
  The session \<^verbatim>\<open>fp_1\<close> against four processors: one reports \<^verbatim>\<open>captured\<close>, one
  \<^verbatim>\<open>failed\<close>, one answers outside 2xx, one cannot be reached.
\<close>

theorem getPaymentStatus_mapping_witness:
  "fst (getPaymentStatus (FoxPayProviderService \<lparr>apiKey = ''key'', foxpayBaseUrl = None\<rparr>)
     (\<lambda>sent rq. Resolves \<lparr>rs_ok = True, rs_text = Inr ''captured'',
                            rs_json = Inr (JObj [(''status'', JStr ''captured'')])\<rparr>)
     [(''id'', JStr ''fp_1'')] []) = Inr ''captured''
   \<and> fst (getPaymentStatus (FoxPayProviderService \<lparr>apiKey = ''key'', foxpayBaseUrl = None\<rparr>)
     (\<lambda>sent rq. Resolves \<lparr>rs_ok = True, rs_text = Inr ''failed'',
                            rs_json = Inr (JObj [(''status'', JStr ''failed'')])\<rparr>)
     [(''id'', JStr ''fp_1'')] []) = Inr ''pending''
   \<and> fst (getPaymentStatus (FoxPayProviderService \<lparr>apiKey = ''key'', foxpayBaseUrl = None\<rparr>)
     (\<lambda>sent rq. Resolves \<lparr>rs_ok = False, rs_text = Inr ''not found'',
                            rs_json = Inl (JsError ''SyntaxError'' ''Unexpected token'')\<rparr>)
     [(''id'', JStr ''fp_1'')] []) = Inr ''error''
   \<and> fst (getPaymentStatus (FoxPayProviderService \<lparr>apiKey = ''key'', foxpayBaseUrl = None\<rparr>)
     (\<lambda>sent rq. Rejects (JsError ''TypeError'' ''fetch failed''))
     [(''id'', JStr ''fp_1'')] []) = Inr ''error''"
  using getPaymentStatus_mapping
          [of "\<lambda>sent rq. Resolves \<lparr>rs_ok = True, rs_text = Inr ''captured'',
                            rs_json = Inr (JObj [(''status'', JStr ''captured'')])\<rparr>"
              "[]" "FoxPayProviderService \<lparr>apiKey = ''key'', foxpayBaseUrl = None\<rparr>"
              "[(''id'', JStr ''fp_1'')]"]
        getPaymentStatus_mapping
          [of "\<lambda>sent rq. Resolves \<lparr>rs_ok = True, rs_text = Inr ''failed'',
                            rs_json = Inr (JObj [(''status'', JStr ''failed'')])\<rparr>"
              "[]" "FoxPayProviderService \<lparr>apiKey = ''key'', foxpayBaseUrl = None\<rparr>"
              "[(''id'', JStr ''fp_1'')]"]
        getPaymentStatus_mapping
          [of "\<lambda>sent rq. Resolves \<lparr>rs_ok = False, rs_text = Inr ''not found'',
                            rs_json = Inl (JsError ''SyntaxError'' ''Unexpected token'')\<rparr>"
              "[]" "FoxPayProviderService \<lparr>apiKey = ''key'', foxpayBaseUrl = None\<rparr>"
              "[(''id'', JStr ''fp_1'')]"]
        getPaymentStatus_mapping
          [of "\<lambda>sent rq. Rejects (JsError ''TypeError'' ''fetch failed'')"
              "[]" "FoxPayProviderService \<lparr>apiKey = ''key'', foxpayBaseUrl = None\<rparr>"
              "[(''id'', JStr ''fp_1'')]"]
  by (simp add: js_field_def)

section \<open>Initiating a payment\<close>

lemma toUpperCase_eur: "toUpperCase ''eur'' = ''EUR''"
  by code_simp

lemma fst_initiatePayment_object:
  assumes "net sent (initiate_request this input) = Resolves res" and "rs_ok res"
    and "rs_json res = Inr (JObj d)"
  shows "fst (initiatePayment this net input sent) =
           Inr (Inr (AList.update ''data''
             (JObj [(''id'', js_field d ''id''), (''qr_code_url'', js_field d ''qr_code_url''),
                    (''verwendungszweck'', JStr (initiate_memo input))])
             (obj_assign [] d)))"
  using assms by (simp add: initiatePayment_def fst_gateway_call)

text \<open>
  Claim C8, as the code has it. The FoxPay \<^verbatim>\<open>initiatePayment\<close> sends one POST to
  \<^verbatim>\<open>/initiate\<close> whose body holds the amount as the host gave it (the host counts in the
  smallest currency unit; nothing is converted), the currency code in upper case, and
  the memo \<^verbatim>\<open>Order #\<close> followed by the cart id of the context (\<^verbatim>\<open>unknown\<close> when
  there is no context). When the processor
  answers 2xx with a JSON object, the function returns exactly
  \<^verbatim>\<open>{...answer, data: {id, qr_code_url, verwendungszweck}}\<close>: the answer's own fields,
  with \<^verbatim>\<open>data\<close> set to the three fields, the first two read from the answer. So the
  \<^verbatim>\<open>status\<close> of the session returned is the answer's (none when the answer has none);
  the function never writes \<^verbatim>\<open>pending\<close>. When the processor answers
  outside 2xx or cannot be reached, the function returns the error record and no session.
  The custom provider's \<^verbatim>\<open>createPayment\<close> converts: the amount it sends is the cart's
  total divided by 100.
\<close>

theorem initiatePayment_session:
  "snd (initiatePayment this net input sent) = sent @ [initiate_request this input]
   \<and> rq_url (initiate_request this input) = baseUrl this @ ''/initiate''
   \<and> rq_body (initiate_request this input)
       = Some (JObj [(''amount'', cs_amount input),
                     (''currency'', JStr (toUpperCase (cs_currency_code input))),
                     (''verwendungszweck'', JStr (initiate_memo input))])
   \<and> (\<forall>cart. js_prop (cs_context input) ''cart_id'' = Inr (JStr cart) \<longrightarrow>
         initiate_memo input = ''Order #'' @ cart)
   \<and> (cs_context input = JUndefined \<longrightarrow> initiate_memo input = ''Order #unknown'')
   \<and> (\<forall>res d.
         net sent (initiate_request this input) = Resolves res \<and> rs_ok res \<and>
         rs_json res = Inr (JObj d) \<longrightarrow>
         fst (initiatePayment this net input sent)
           = Inr (Inr (AList.update ''data''
               (JObj [(''id'', js_field d ''id''),
                      (''qr_code_url'', js_field d ''qr_code_url''),
                      (''verwendungszweck'', JStr (initiate_memo input))])
               (obj_assign [] d))))
   \<and> (\<forall>res d session.
         net sent (initiate_request this input) = Resolves res \<and> rs_ok res \<and>
         rs_json res = Inr (JObj d) \<and> distinct (map fst d) \<and>
         fst (initiatePayment this net input sent) = Inr (Inr session) \<longrightarrow>
         session = AList.update ''data''
               (JObj [(''id'', js_field d ''id''),
                      (''qr_code_url'', js_field d ''qr_code_url''),
                      (''verwendungszweck'', JStr (initiate_memo input))]) d
         \<and> js_field session ''data''
              = JObj [(''id'', js_field d ''id''),
                      (''qr_code_url'', js_field d ''qr_code_url''),
                      (''verwendungszweck'', JStr (initiate_memo input))]
         \<and> js_field session ''status'' = js_field d ''status'')
   \<and> (\<forall>res detail.
         net sent (initiate_request this input) = Resolves res \<and> \<not> rs_ok res \<and>
         rs_text res = Inr detail \<longrightarrow>
         fst (initiatePayment this net input sent)
           = Inr (Inl \<lparr>pe_error = JsError ''Error'' (''FoxPay initiation failed: '' @ detail),
                       pe_code = ''init_failed'',
                       pe_detail = DetailText detail\<rparr>))
   \<and> (\<forall>e. net sent (initiate_request this input) = Rejects e \<longrightarrow>
         fst (initiatePayment this net input sent)
           = Inr (Inl \<lparr>pe_error = e, pe_code = ''unknown'', pe_detail = DetailError e\<rparr>))
   \<and> tb_amount (ax_data (transfer_request env service c)) = of_int (cart_total c) / 100"
proof (intro conjI)
  show "tb_amount (ax_data (transfer_request env service c)) = of_int (cart_total c) / 100"
    by (simp add: transfer_request_def)
  show "snd (initiatePayment this net input sent) = sent @ [initiate_request this input]"
    by (simp add: initiatePayment_def snd_gateway_call)
  show "rq_url (initiate_request this input) = baseUrl this @ ''/initiate''"
    by (simp add: initiate_request_def post_json_def)
  show "rq_body (initiate_request this input)
       = Some (JObj [(''amount'', cs_amount input),
                     (''currency'', JStr (toUpperCase (cs_currency_code input))),
                     (''verwendungszweck'', JStr (initiate_memo input))])"
    by (simp add: initiate_request_def post_json_def)
  show "\<forall>cart. js_prop (cs_context input) ''cart_id'' = Inr (JStr cart) \<longrightarrow>
         initiate_memo input = ''Order #'' @ cart"
    by (simp add: initiate_memo_def js_opt_prop_def nullish_or_def)
  show "cs_context input = JUndefined \<longrightarrow> initiate_memo input = ''Order #unknown''"
    by (simp add: initiate_memo_def js_opt_prop_def nullish_or_def)
  show "\<forall>res d.
         net sent (initiate_request this input) = Resolves res \<and> rs_ok res \<and>
         rs_json res = Inr (JObj d) \<longrightarrow>
         fst (initiatePayment this net input sent)
           = Inr (Inr (AList.update ''data''
               (JObj [(''id'', js_field d ''id''),
                      (''qr_code_url'', js_field d ''qr_code_url''),
                      (''verwendungszweck'', JStr (initiate_memo input))])
               (obj_assign [] d)))"
    by (simp add: fst_initiatePayment_object)
  show "\<forall>res d session.
         net sent (initiate_request this input) = Resolves res \<and> rs_ok res \<and>
         rs_json res = Inr (JObj d) \<and> distinct (map fst d) \<and>
         fst (initiatePayment this net input sent) = Inr (Inr session) \<longrightarrow>
         session = AList.update ''data''
               (JObj [(''id'', js_field d ''id''),
                      (''qr_code_url'', js_field d ''qr_code_url''),
                      (''verwendungszweck'', JStr (initiate_memo input))]) d
         \<and> js_field session ''data''
              = JObj [(''id'', js_field d ''id''),
                      (''qr_code_url'', js_field d ''qr_code_url''),
                      (''verwendungszweck'', JStr (initiate_memo input))]
         \<and> js_field session ''status'' = js_field d ''status''"
  proof (intro allI impI)
    fix res d session
    assume a: "net sent (initiate_request this input) = Resolves res \<and> rs_ok res \<and>
         rs_json res = Inr (JObj d) \<and> distinct (map fst d) \<and>
         fst (initiatePayment this net input sent) = Inr (Inr session)"
    then have copy: "obj_assign [] d = d"
      using obj_assign_distinct_append [of "[]" d] by simp
    from a have r: "net sent (initiate_request this input) = Resolves res"
      and ok: "rs_ok res" and j: "rs_json res = Inr (JObj d)"
      by simp_all
    have "fst (initiatePayment this net input sent)
           = Inr (Inr (AList.update ''data''
               (JObj [(''id'', js_field d ''id''),
                      (''qr_code_url'', js_field d ''qr_code_url''),
                      (''verwendungszweck'', JStr (initiate_memo input))])
               (obj_assign [] d)))"
      using r ok j by (rule fst_initiatePayment_object [where net = net and sent = sent])
    with a copy have session: "session = AList.update ''data''
               (JObj [(''id'', js_field d ''id''),
                      (''qr_code_url'', js_field d ''qr_code_url''),
                      (''verwendungszweck'', JStr (initiate_memo input))]) d"
      by simp
    then show "session = AList.update ''data''
               (JObj [(''id'', js_field d ''id''),
                      (''qr_code_url'', js_field d ''qr_code_url''),
                      (''verwendungszweck'', JStr (initiate_memo input))]) d
         \<and> js_field session ''data''
              = JObj [(''id'', js_field d ''id''),
                      (''qr_code_url'', js_field d ''qr_code_url''),
                      (''verwendungszweck'', JStr (initiate_memo input))]
         \<and> js_field session ''status'' = js_field d ''status''"
      by (simp add: js_field_update_same js_field_update_other)
  qed
  show "\<forall>res detail.
         net sent (initiate_request this input) = Resolves res \<and> \<not> rs_ok res \<and>
         rs_text res = Inr detail \<longrightarrow>
         fst (initiatePayment this net input sent)
           = Inr (Inl \<lparr>pe_error = JsError ''Error'' (''FoxPay initiation failed: '' @ detail),
                       pe_code = ''init_failed'',
                       pe_detail = DetailText detail\<rparr>)"
    by (simp add: initiatePayment_def fst_gateway_call)
  show "\<forall>e. net sent (initiate_request this input) = Rejects e \<longrightarrow>
         fst (initiatePayment this net input sent)
           = Inr (Inl \<lparr>pe_error = e, pe_code = ''unknown'', pe_detail = DetailError e\<rparr>)"
    by (simp add: initiatePayment_def fst_gateway_call)
qed

text \<open>
  1000 cents in \<^verbatim>\<open>eur\<close> for the cart \<^verbatim>\<open>cart_1\<close>: the body sent, and the session
  returned when the processor answers \<^verbatim>\<open>{id: "fp_1", qr_code_url: "https://x/y"}\<close>.
\<close>

theorem initiatePayment_session_witness:
  "rq_body (initiate_request (FoxPayProviderService \<lparr>apiKey = ''key'', foxpayBaseUrl = None\<rparr>)
     \<lparr>cs_amount = JNum 1000, cs_currency_code = ''eur'',
      cs_context = JObj [(''cart_id'', JStr ''cart_1'')]\<rparr>)
   = Some (JObj [(''amount'', JNum 1000), (''currency'', JStr ''EUR''),
                 (''verwendungszweck'', JStr ''Order #cart_1'')])
   \<and> fst (initiatePayment (FoxPayProviderService \<lparr>apiKey = ''key'', foxpayBaseUrl = None\<rparr>)
          (\<lambda>sent rq. Resolves \<lparr>rs_ok = True, rs_text = Inr ''created'',
             rs_json = Inr (JObj [(''id'', JStr ''fp_1''), (''qr_code_url'', JStr ''https://x/y'')])\<rparr>)
          \<lparr>cs_amount = JNum 1000, cs_currency_code = ''eur'',
           cs_context = JObj [(''cart_id'', JStr ''cart_1'')]\<rparr> [])
       = Inr (Inr [(''id'', JStr ''fp_1''), (''qr_code_url'', JStr ''https://x/y''),
                   (''data'', JObj [(''id'', JStr ''fp_1''), (''qr_code_url'', JStr ''https://x/y''),
                                    (''verwendungszweck'', JStr ''Order #cart_1'')])])"
proof -
  note all = initiatePayment_session
    [where this = "FoxPayProviderService \<lparr>apiKey = ''key'', foxpayBaseUrl = None\<rparr>"
       and net = "\<lambda>sent rq. Resolves \<lparr>rs_ok = True, rs_text = Inr ''created'',
             rs_json = Inr (JObj [(''id'', JStr ''fp_1''), (''qr_code_url'', JStr ''https://x/y'')])\<rparr>"
       and input = "\<lparr>cs_amount = JNum 1000, cs_currency_code = ''eur'',
           cs_context = JObj [(''cart_id'', JStr ''cart_1'')]\<rparr>"
       and sent = "[]"]
  note body = all [THEN conjunct2, THEN conjunct2, THEN conjunct1]
  note memo = all [THEN conjunct2, THEN conjunct2, THEN conjunct2, THEN conjunct1]
  note created = all [THEN conjunct2, THEN conjunct2, THEN conjunct2, THEN conjunct2, THEN conjunct2,
    THEN conjunct1]
  from memo have m: "initiate_memo \<lparr>cs_amount = JNum 1000, cs_currency_code = ''eur'',
           cs_context = JObj [(''cart_id'', JStr ''cart_1'')]\<rparr> = ''Order #cart_1''"
    by (simp add: js_field_def)
  from body m have "rq_body (initiate_request (FoxPayProviderService \<lparr>apiKey = ''key'', foxpayBaseUrl = None\<rparr>)
     \<lparr>cs_amount = JNum 1000, cs_currency_code = ''eur'',
      cs_context = JObj [(''cart_id'', JStr ''cart_1'')]\<rparr>)
   = Some (JObj [(''amount'', JNum 1000), (''currency'', JStr ''EUR''),
                 (''verwendungszweck'', JStr ''Order #cart_1'')])"
    by (simp add: toUpperCase_eur)
  moreover from created m have "fst (initiatePayment (FoxPayProviderService \<lparr>apiKey = ''key'', foxpayBaseUrl = None\<rparr>)
          (\<lambda>sent rq. Resolves \<lparr>rs_ok = True, rs_text = Inr ''created'',
             rs_json = Inr (JObj [(''id'', JStr ''fp_1''), (''qr_code_url'', JStr ''https://x/y'')])\<rparr>)
          \<lparr>cs_amount = JNum 1000, cs_currency_code = ''eur'',
           cs_context = JObj [(''cart_id'', JStr ''cart_1'')]\<rparr> [])
       = Inr (Inr [(''id'', JStr ''fp_1''), (''qr_code_url'', JStr ''https://x/y''),
                   (''data'', JObj [(''id'', JStr ''fp_1''), (''qr_code_url'', JStr ''https://x/y''),
                                    (''verwendungszweck'', JStr ''Order #cart_1'')])])"
    by (simp add: js_field_def obj_assign_def)
  ultimately show ?thesis by (rule conjI)
qed

text \<open>
  Claim C8 as stated fails twice. For a cart of 1000 cents the custom provider's
  \<^verbatim>\<open>createPayment\<close> sends the amount 10, the total divided by 100, not the integer
  amount in the smallest unit. And the session the FoxPay \<^verbatim>\<open>initiatePayment\<close> returns is
  not set to \<^verbatim>\<open>pending\<close>: when the processor answers
  \<^verbatim>\<open>{id: "fp_1", qr_code_url: "https://x/y", status: "captured"}\<close>, the session returned
  has the status \<^verbatim>\<open>captured\<close>.
\<close>

theorem createPayment_sends_major_units:
  "map ax_data (w_sent (snd (snd (createPayment
     \<lparr>PAYMENT_PROVIDER_API_URL = None, PAYMENT_PROVIDER_AUTH_URL = None,
      PAYMENT_PROVIDER_ACCESS_KEY = Some ''access'', PAYMENT_PROVIDER_SECRET_KEY = Some ''secret'',
      BACKEND_URL = Some ''https://shop.example''\<rparr>
     \<lparr>gw_token = (\<lambda>sent rq. AxiosResponse \<lparr>tr_accessToken = ''tok_1'', tr_expiresIn = 3600\<rparr>),
      gw_api = (\<lambda>sent rq. AxiosResponse (JObj [(''transactionId'', JStr ''tx_1''),
                                                 (''status'', JStr ''PENDING'')])),
      gw_latency = (\<lambda>sent rq. 0)\<rparr>
     (CustomPaymentProviderService
        \<lparr>PAYMENT_PROVIDER_API_URL = None, PAYMENT_PROVIDER_AUTH_URL = None,
         PAYMENT_PROVIDER_ACCESS_KEY = Some ''access'', PAYMENT_PROVIDER_SECRET_KEY = Some ''secret'',
         BACKEND_URL = Some ''https://shop.example''\<rparr>)
     \<lparr>cart_id = ''cart_1'', cart_total = 1000, cart_region_currency_code = ''eur''\<rparr>
     \<lparr>w_sent = [], w_now = 1000\<rparr>))))
   = [TokenBody (Some ''access'') (Some ''secret''),
      TransferBody 10 ''EUR'' ''Order cart_1'' ''https://shop.example/payment/webhook'' True]
   \<and> fst (initiatePayment (FoxPayProviderService \<lparr>apiKey = ''key'', foxpayBaseUrl = None\<rparr>)
          (\<lambda>sent rq. Resolves \<lparr>rs_ok = True, rs_text = Inr ''created'',
             rs_json = Inr (JObj [(''id'', JStr ''fp_1''), (''qr_code_url'', JStr ''https://x/y''),
                                  (''status'', JStr ''captured'')])\<rparr>)
          \<lparr>cs_amount = JNum 1000, cs_currency_code = ''eur'',
           cs_context = JObj [(''cart_id'', JStr ''cart_1'')]\<rparr> [])
       = Inr (Inr [(''id'', JStr ''fp_1''), (''qr_code_url'', JStr ''https://x/y''),
                   (''status'', JStr ''captured''),
                   (''data'', JObj [(''id'', JStr ''fp_1''), (''qr_code_url'', JStr ''https://x/y''),
                                    (''verwendungszweck'', JStr ''Order #cart_1'')])])"
proof (rule conjI)
  show "map ax_data (w_sent (snd (snd (createPayment
     \<lparr>PAYMENT_PROVIDER_API_URL = None, PAYMENT_PROVIDER_AUTH_URL = None,
      PAYMENT_PROVIDER_ACCESS_KEY = Some ''access'', PAYMENT_PROVIDER_SECRET_KEY = Some ''secret'',
      BACKEND_URL = Some ''https://shop.example''\<rparr>
     \<lparr>gw_token = (\<lambda>sent rq. AxiosResponse \<lparr>tr_accessToken = ''tok_1'', tr_expiresIn = 3600\<rparr>),
      gw_api = (\<lambda>sent rq. AxiosResponse (JObj [(''transactionId'', JStr ''tx_1''),
                                                 (''status'', JStr ''PENDING'')])),
      gw_latency = (\<lambda>sent rq. 0)\<rparr>
     (CustomPaymentProviderService
        \<lparr>PAYMENT_PROVIDER_API_URL = None, PAYMENT_PROVIDER_AUTH_URL = None,
         PAYMENT_PROVIDER_ACCESS_KEY = Some ''access'', PAYMENT_PROVIDER_SECRET_KEY = Some ''secret'',
         BACKEND_URL = Some ''https://shop.example''\<rparr>)
     \<lparr>cart_id = ''cart_1'', cart_total = 1000, cart_region_currency_code = ''eur''\<rparr>
     \<lparr>w_sent = [], w_now = 1000\<rparr>))))
   = [TokenBody (Some ''access'') (Some ''secret''),
      TransferBody 10 ''EUR'' ''Order cart_1'' ''https://shop.example/payment/webhook'' True]"
    by (simp add: createPayment_def ensureAuthenticated_def authenticate_def axios_post_def
          CustomPaymentProviderService_def token_missing_def transfer_request_def token_request_def
          env_or_def toUpperCase_eur)
  show "fst (initiatePayment (FoxPayProviderService \<lparr>apiKey = ''key'', foxpayBaseUrl = None\<rparr>)
          (\<lambda>sent rq. Resolves \<lparr>rs_ok = True, rs_text = Inr ''created'',
             rs_json = Inr (JObj [(''id'', JStr ''fp_1''), (''qr_code_url'', JStr ''https://x/y''),
                                  (''status'', JStr ''captured'')])\<rparr>)
          \<lparr>cs_amount = JNum 1000, cs_currency_code = ''eur'',
           cs_context = JObj [(''cart_id'', JStr ''cart_1'')]\<rparr> [])
       = Inr (Inr [(''id'', JStr ''fp_1''), (''qr_code_url'', JStr ''https://x/y''),
                   (''status'', JStr ''captured''),
                   (''data'', JObj [(''id'', JStr ''fp_1''), (''qr_code_url'', JStr ''https://x/y''),
                                    (''verwendungszweck'', JStr ''Order #cart_1'')])])"
    by (simp add: fst_initiatePayment_object js_field_def obj_assign_def initiate_memo_def
          js_opt_prop_def nullish_or_def)
qed

section \<open>Cancelling a payment\<close>

lemma Custom_cancel_twice:
  "Custom_cancelPayment (AList.update ''status'' (JStr ''cancelled'') (obj_assign [] pd))
     = Inr (AList.update ''status'' (JStr ''cancelled'') (obj_assign [] pd))"
proof -
  have "distinct (map fst (AList.update ''status'' (JStr ''cancelled'') (obj_assign [] pd)))"
    using obj_assign_distinct [of "[]" pd] by (simp add: distinct_update)
  then have "obj_assign [] (AList.update ''status'' (JStr ''cancelled'') (obj_assign [] pd))
      = AList.update ''status'' (JStr ''cancelled'') (obj_assign [] pd)"
    using obj_assign_distinct_append [of "[]"] by simp
  then show ?thesis by (simp add: Custom_cancelPayment_def update_twice)
qed

text \<open>
  Claim C9, as the code has it. The custom provider's \<^verbatim>\<open>cancelPayment\<close> contacts no
  processor: it returns exactly \<^verbatim>\<open>{...paymentData, status: 'cancelled'}\<close>, the payment
  data with \<^verbatim>\<open>status\<close> set to \<^verbatim>\<open>cancelled\<close> (so spelled) and every other field kept, and
  cancelling the result again returns the same data. The FoxPay
  \<^verbatim>\<open>cancelPayment\<close> sends one POST to \<^verbatim>\<open>/cancel\<close> with the session's \<^verbatim>\<open>id\<close> on every
  call, so two calls send two requests; a call answered 2xx returns the payment data
  with the fields of the answer written over it (its \<^verbatim>\<open>status\<close> is the processor's, if
  it gives one), and a call answered outside 2xx returns the error \<^verbatim>\<open>cancel_failed\<close>.
  A repeated cancel is as idempotent as the processor makes it.
\<close>

theorem cancel_repeated:
  "Custom_cancelPayment pd
     = Inr (AList.update ''status'' (JStr ''cancelled'') (obj_assign [] pd))
   \<and> (\<forall>canceled. Custom_cancelPayment pd = Inr canceled \<longrightarrow>
         js_field canceled ''status'' = JStr ''cancelled''
         \<and> (\<forall>key. key \<noteq> ''status'' \<longrightarrow>
               js_field canceled key = js_field (obj_assign [] pd) key)
         \<and> Custom_cancelPayment canceled = Inr canceled)
   \<and> (distinct (map fst pd) \<longrightarrow>
         Custom_cancelPayment pd = Inr (AList.update ''status'' (JStr ''cancelled'') pd))
   \<and> snd (cancelPayment this net pd sent) = sent @ [cancel_request this pd]
   \<and> snd (cancelPayment this net pd (snd (cancelPayment this net pd sent)))
       = sent @ [cancel_request this pd, cancel_request this pd]
   \<and> rq_url (cancel_request this pd) = baseUrl this @ ''/cancel''
   \<and> rq_body (cancel_request this pd) = Some (JObj [(''id'', js_field pd ''id'')])
   \<and> (\<forall>res data.
         net sent (cancel_request this pd) = Resolves res \<and> rs_ok res \<and> rs_json res = Inr data \<longrightarrow>
         fst (cancelPayment this net pd sent)
           = Inr (Inr (obj_assign (obj_assign [] pd) (own_props data))))
   \<and> (\<forall>res detail.
         net sent (cancel_request this pd) = Resolves res \<and> \<not> rs_ok res \<and>
         rs_text res = Inr detail \<longrightarrow>
         fst (cancelPayment this net pd sent)
           = Inr (Inl \<lparr>pe_error = JsError ''Error'' (''FoxPay cancel failed: '' @ detail),
                       pe_code = ''cancel_failed'',
                       pe_detail = DetailText detail\<rparr>))"
proof (intro conjI)
  show "Custom_cancelPayment pd
     = Inr (AList.update ''status'' (JStr ''cancelled'') (obj_assign [] pd))"
    by (simp add: Custom_cancelPayment_def)
  show "\<forall>canceled. Custom_cancelPayment pd = Inr canceled \<longrightarrow>
         js_field canceled ''status'' = JStr ''cancelled''
         \<and> (\<forall>key. key \<noteq> ''status'' \<longrightarrow>
               js_field canceled key = js_field (obj_assign [] pd) key)
         \<and> Custom_cancelPayment canceled = Inr canceled"
  proof (intro allI impI)
    fix canceled
    assume "Custom_cancelPayment pd = Inr canceled"
    then have c: "canceled = AList.update ''status'' (JStr ''cancelled'') (obj_assign [] pd)"
      by (simp add: Custom_cancelPayment_def)
    show "js_field canceled ''status'' = JStr ''cancelled''
         \<and> (\<forall>key. key \<noteq> ''status'' \<longrightarrow>
               js_field canceled key = js_field (obj_assign [] pd) key)
         \<and> Custom_cancelPayment canceled = Inr canceled"
      unfolding c
      using Custom_cancel_twice [of pd]
      by (simp add: js_field_update_same js_field_update_other)
  qed
  show "distinct (map fst pd) \<longrightarrow>
         Custom_cancelPayment pd = Inr (AList.update ''status'' (JStr ''cancelled'') pd)"
    using obj_assign_distinct_append [of "[]" pd]
    by (simp add: Custom_cancelPayment_def)
  show "snd (cancelPayment this net pd sent) = sent @ [cancel_request this pd]"
    by (simp add: cancelPayment_def snd_gateway_call)
  show "snd (cancelPayment this net pd (snd (cancelPayment this net pd sent)))
       = sent @ [cancel_request this pd, cancel_request this pd]"
    by (simp add: cancelPayment_def snd_gateway_call)
  show "rq_url (cancel_request this pd) = baseUrl this @ ''/cancel''"
    by (simp add: cancel_request_def post_json_def)
  show "rq_body (cancel_request this pd) = Some (JObj [(''id'', js_field pd ''id'')])"
    by (simp add: cancel_request_def post_json_def id_payload_def)
  show "\<forall>res data.
         net sent (cancel_request this pd) = Resolves res \<and> rs_ok res \<and> rs_json res = Inr data \<longrightarrow>
         fst (cancelPayment this net pd sent)
           = Inr (Inr (obj_assign (obj_assign [] pd) (own_props data)))"
    by (simp add: cancelPayment_def fst_gateway_call merged_def)
  show "\<forall>res detail.
         net sent (cancel_request this pd) = Resolves res \<and> \<not> rs_ok res \<and>
         rs_text res = Inr detail \<longrightarrow>
         fst (cancelPayment this net pd sent)
           = Inr (Inl \<lparr>pe_error = JsError ''Error'' (''FoxPay cancel failed: '' @ detail),
                       pe_code = ''cancel_failed'',
                       pe_detail = DetailText detail\<rparr>)"
    by (simp add: cancelPayment_def fst_gateway_call)
qed

text \<open>
  The session \<^verbatim>\<open>fp_1\<close>, pending, cancelled at a processor that answers
  \<^verbatim>\<open>{status: "canceled"}\<close>; and the payment \<^verbatim>\<open>tx_1\<close>, pending, cancelled by the custom
  provider.
\<close>

theorem cancel_repeated_witness:
  "fst (cancelPayment (FoxPayProviderService \<lparr>apiKey = ''key'', foxpayBaseUrl = None\<rparr>)
     (\<lambda>sent rq. Resolves \<lparr>rs_ok = True, rs_text = Inr ''canceled'',
                            rs_json = Inr (JObj [(''status'', JStr ''canceled'')])\<rparr>)
     [(''id'', JStr ''fp_1''), (''status'', JStr ''pending'')] [])
   = Inr (Inr [(''id'', JStr ''fp_1''), (''status'', JStr ''canceled'')])
   \<and> Custom_cancelPayment [(''transactionId'', JStr ''tx_1''), (''status'', JStr ''pending'')]
       = Inr [(''transactionId'', JStr ''tx_1''), (''status'', JStr ''cancelled'')]
   \<and> Custom_cancelPayment [(''transactionId'', JStr ''tx_1''), (''status'', JStr ''cancelled'')]
       = Inr [(''transactionId'', JStr ''tx_1''), (''status'', JStr ''cancelled'')]"
proof -
  note answered = cancel_repeated
    [where this = "FoxPayProviderService \<lparr>apiKey = ''key'', foxpayBaseUrl = None\<rparr>"
       and net = "\<lambda>sent rq. Resolves \<lparr>rs_ok = True, rs_text = Inr ''canceled'',
                            rs_json = Inr (JObj [(''status'', JStr ''canceled'')])\<rparr>"
       and pd = "[(''id'', JStr ''fp_1''), (''status'', JStr ''pending'')]"
       and sent = "[]",
     THEN conjunct2, THEN conjunct2, THEN conjunct2, THEN conjunct2, THEN conjunct2,
     THEN conjunct2, THEN conjunct2, THEN conjunct1]
  note custom = cancel_repeated
    [where pd = "[(''transactionId'', JStr ''tx_1''), (''status'', JStr ''pending'')]",
     THEN conjunct2, THEN conjunct2, THEN conjunct1]
  note again = cancel_repeated
    [where pd = "[(''transactionId'', JStr ''tx_1''), (''status'', JStr ''cancelled'')]",
     THEN conjunct2, THEN conjunct2, THEN conjunct1]
  from answered have "fst (cancelPayment (FoxPayProviderService \<lparr>apiKey = ''key'', foxpayBaseUrl = None\<rparr>)
     (\<lambda>sent rq. Resolves \<lparr>rs_ok = True, rs_text = Inr ''canceled'',
                            rs_json = Inr (JObj [(''status'', JStr ''canceled'')])\<rparr>)
     [(''id'', JStr ''fp_1''), (''status'', JStr ''pending'')] [])
   = Inr (Inr [(''id'', JStr ''fp_1''), (''status'', JStr ''canceled'')])"
    by (simp add: obj_assign_def)
  moreover from custom have
    "Custom_cancelPayment [(''transactionId'', JStr ''tx_1''), (''status'', JStr ''pending'')]
       = Inr [(''transactionId'', JStr ''tx_1''), (''status'', JStr ''cancelled'')]"
    by simp
  moreover from again have
    "Custom_cancelPayment [(''transactionId'', JStr ''tx_1''), (''status'', JStr ''cancelled'')]
       = Inr [(''transactionId'', JStr ''tx_1''), (''status'', JStr ''cancelled'')]"
    by simp
  ultimately show ?thesis by simp
qed

text \<open>
  Claim C9 as stated fails for the FoxPay provider: the second cancel of \<^verbatim>\<open>fp_1\<close> is a
  second POST the processor sees, and when the processor refuses it (\<^verbatim>\<open>already
  canceled\<close>) the second call returns the error \<^verbatim>\<open>cancel_failed\<close>, not the status
  \<^verbatim>\<open>canceled\<close>.
\<close>

theorem second_cancel_refused:
  "fst (cancelPayment (FoxPayProviderService \<lparr>apiKey = ''key'', foxpayBaseUrl = None\<rparr>)
     (\<lambda>sent rq.
        if sent = [] then
          Resolves \<lparr>rs_ok = True, rs_text = Inr ''canceled'',
                    rs_json = Inr (JObj [(''status'', JStr ''canceled'')])\<rparr>
        else
          Resolves \<lparr>rs_ok = False, rs_text = Inr ''already canceled'',
                    rs_json = Inl (JsError ''SyntaxError'' ''Unexpected token'')\<rparr>)
     [(''id'', JStr ''fp_1'')]
     (snd (cancelPayment (FoxPayProviderService \<lparr>apiKey = ''key'', foxpayBaseUrl = None\<rparr>)
        (\<lambda>sent rq.
           if sent = [] then
             Resolves \<lparr>rs_ok = True, rs_text = Inr ''canceled'',
                       rs_json = Inr (JObj [(''status'', JStr ''canceled'')])\<rparr>
           else
             Resolves \<lparr>rs_ok = False, rs_text = Inr ''already canceled'',
                       rs_json = Inl (JsError ''SyntaxError'' ''Unexpected token'')\<rparr>)
        [(''id'', JStr ''fp_1'')] [])))
   = Inr (Inl \<lparr>pe_error = JsError ''Error'' ''FoxPay cancel failed: already canceled'',
               pe_code = ''cancel_failed'',
               pe_detail = DetailText ''already canceled''\<rparr>)
   \<and> length (snd (cancelPayment (FoxPayProviderService \<lparr>apiKey = ''key'', foxpayBaseUrl = None\<rparr>)
     (\<lambda>sent rq.
        if sent = [] then
          Resolves \<lparr>rs_ok = True, rs_text = Inr ''canceled'',
                    rs_json = Inr (JObj [(''status'', JStr ''canceled'')])\<rparr>
        else
          Resolves \<lparr>rs_ok = False, rs_text = Inr ''already canceled'',
                    rs_json = Inl (JsError ''SyntaxError'' ''Unexpected token'')\<rparr>)
     [(''id'', JStr ''fp_1'')]
     (snd (cancelPayment (FoxPayProviderService \<lparr>apiKey = ''key'', foxpayBaseUrl = None\<rparr>)
        (\<lambda>sent rq.
           if sent = [] then
             Resolves \<lparr>rs_ok = True, rs_text = Inr ''canceled'',
                       rs_json = Inr (JObj [(''status'', JStr ''canceled'')])\<rparr>
           else
             Resolves \<lparr>rs_ok = False, rs_text = Inr ''already canceled'',
                       rs_json = Inl (JsError ''SyntaxError'' ''Unexpected token'')\<rparr>)
        [(''id'', JStr ''fp_1'')] [])))) = 2"
  by (simp add: cancelPayment_def fst_gateway_call snd_gateway_call)

section \<open>Refunding a payment\<close>

lemma toLowerCase_refunded: "toLowerCase ''REFUNDED'' = ''refunded''"
  by code_simp

lemma refund_success:
  assumes "ensureAuthenticated gw this w = (Inr (), this1, w1)"
    and "js_prop (js_field payment ''data'') ''transactionId'' = Inr transactionId"
    and "gw_api gw (w_sent w1)
           (Custom_refund_request this1 (RefundBody transactionId (of_int amount / 100)))
         = AxiosResponse data"
    and "js_prop data ''status'' = Inr (JStr s)"
  shows "fst (Custom_refundPayment gw this payment amount w)
         = Inr \<lparr>cr_status = toLowerCase s, cr_data = js_field payment ''data''\<rparr>"
proof -
  from assms(4) have "data \<noteq> JUndefined" "data \<noteq> JNull" by auto
  with assms show ?thesis
    by (simp add: Custom_refundPayment_def refund_body_def axios_post_def destructurable_def
          js_opt_prop_def js_toLowerCase_def)
qed

lemma refund_data_kept:
  assumes "fst (Custom_refundPayment gw this payment amount w) = Inr result"
  shows "cr_data result = js_field payment ''data''"
proof (cases "ensureAuthenticated gw this w")
  case (fields r this1 w1)
  show ?thesis
  proof (cases r)
    case (Inl e)
    with fields assms show ?thesis by (simp add: Custom_refundPayment_def)
  next
    case (Inr u)
    show ?thesis
    proof (cases "refund_body payment amount")
      case (Inl e)
      with fields Inr assms show ?thesis by (simp add: Custom_refundPayment_def)
    next
      case body: (Inr body)
      show ?thesis
      proof (cases "gw_api gw (w_sent w1) (Custom_refund_request this1 body)")
        case (AxiosError message)
        with fields Inr body assms show ?thesis
          by (simp add: Custom_refundPayment_def axios_post_def)
      next
        case (AxiosResponse data)
        with fields Inr body assms show ?thesis
          by (auto simp: Custom_refundPayment_def axios_post_def split: sum.splits)
      qed
    qed
  qed
qed

text \<open>
  Claim C10. \<^verbatim>\<open>refundPayment\<close> of the custom provider, once a token is there, sends
  the refund of \<open>amount / 100\<close> for the payment's transaction; when the processor answers
  with a body whose \<^verbatim>\<open>status\<close> is the string \<open>s\<close>, the function returns \<open>s\<close> in lower
  case as the status of the operation, together with \<^verbatim>\<open>payment.data\<close> as it was
  stored. Whenever the function returns at all, the data it returns is the stored data.
  The function has no assignment to \<^verbatim>\<open>payment\<close>: the payment, its status with it, is a
  value the model passes in and never out, and the only fields written are the token and
  its expiry.
\<close>

theorem refund_reports_status_and_keeps_data:
  "(\<forall>this1 w1 transactionId data s.
      ensureAuthenticated gw this w = (Inr (), this1, w1) \<and>
      js_prop (js_field payment ''data'') ''transactionId'' = Inr transactionId \<and>
      gw_api gw (w_sent w1)
        (Custom_refund_request this1 (RefundBody transactionId (of_int amount / 100)))
        = AxiosResponse data \<and>
      js_prop data ''status'' = Inr (JStr s) \<longrightarrow>
      fst (Custom_refundPayment gw this payment amount w)
        = Inr \<lparr>cr_status = toLowerCase s, cr_data = js_field payment ''data''\<rparr>)
   \<and> (\<forall>result. fst (Custom_refundPayment gw this payment amount w) = Inr result \<longrightarrow>
         cr_data result = js_field payment ''data'')"
  using refund_success refund_data_kept by blast

text \<open>
  A captured payment, refunded by 500 with a token in hand; the processor answers
  \<^verbatim>\<open>REFUNDED\<close>.
\<close>

theorem refund_reports_status_and_keeps_data_witness:
  "fst (Custom_refundPayment
     \<lparr>gw_token = (\<lambda>sent rq. AxiosResponse \<lparr>tr_accessToken = ''tok_1'', tr_expiresIn = 3600\<rparr>),
      gw_api = (\<lambda>sent rq. AxiosResponse (JObj [(''status'', JStr ''REFUNDED'')])),
      gw_latency = (\<lambda>sent rq. 0)\<rparr>
     \<lparr>apiUrl = ''https://api.wlpis.io'', authUrl = ''https://auth.wlpis.io'',
      accessKey = Some ''access'', secretKey = Some ''secret'',
      accessToken = Some ''tok_0'', tokenExpiry = Some 5000\<rparr>
     [(''status'', JStr ''captured''),
      (''data'', JObj [(''transactionId'', JStr ''tx_1''), (''status'', JStr ''CAPTURED'')])]
     500
     \<lparr>w_sent = [], w_now = 1000\<rparr>)
   = Inr \<lparr>cr_status = ''refunded'',
          cr_data = JObj [(''transactionId'', JStr ''tx_1''), (''status'', JStr ''CAPTURED'')]\<rparr>"
proof -
  note success = refund_reports_status_and_keeps_data
    [where gw = "\<lparr>gw_token = (\<lambda>sent rq. AxiosResponse \<lparr>tr_accessToken = ''tok_1'', tr_expiresIn = 3600\<rparr>),
      gw_api = (\<lambda>sent rq. AxiosResponse (JObj [(''status'', JStr ''REFUNDED'')])),
      gw_latency = (\<lambda>sent rq. 0)\<rparr>"
       and this = "\<lparr>apiUrl = ''https://api.wlpis.io'', authUrl = ''https://auth.wlpis.io'',
      accessKey = Some ''access'', secretKey = Some ''secret'',
      accessToken = Some ''tok_0'', tokenExpiry = Some 5000\<rparr>"
       and w = "\<lparr>w_sent = [], w_now = 1000\<rparr>"
       and payment = "[(''status'', JStr ''captured''),
      (''data'', JObj [(''transactionId'', JStr ''tx_1''), (''status'', JStr ''CAPTURED'')])]"
       and amount = 500,
     THEN conjunct1]
  from success show ?thesis
    by (simp add: ensureAuthenticated_def token_missing_def token_expired_def js_field_def
          toLowerCase_refunded)
qed

end
